theory Spec2Isabelle
  imports Complex_Main "HOL-Library.Sublist"
begin

section \<open>Numbers\<close>

text \<open>
  The service computes with float64 values. A value is modelled as a finite real, one of the
  two infinities, or the not-a-number value that pandas treats as "missing". Rounding and
  the sign of zero are not represented: finite arithmetic is exact real arithmetic.
\<close>

datatype flt = Fin real | PInf | NInf | NaN

fun isna :: "flt \<Rightarrow> bool" where
  "isna NaN = True"
| "isna _ = False"

fun is_fin :: "flt \<Rightarrow> bool" where
  "is_fin (Fin a) = True"
| "is_fin _ = False"

text \<open>The real number held by a finite value (and \<open>0\<close> for the others, where it is not used).\<close>

fun fin_val :: "flt \<Rightarrow> real" where
  "fin_val (Fin a) = a"
| "fin_val _ = 0"

fun fneg :: "flt \<Rightarrow> flt" where
  "fneg (Fin a) = Fin (- a)"
| "fneg PInf = NInf"
| "fneg NInf = PInf"
| "fneg NaN = NaN"

fun fabs :: "flt \<Rightarrow> flt" where
  "fabs (Fin a) = Fin \<bar>a\<bar>"
| "fabs PInf = PInf"
| "fabs NInf = PInf"
| "fabs NaN = NaN"

fun fadd :: "flt \<Rightarrow> flt \<Rightarrow> flt" where
  "fadd NaN _ = NaN"
| "fadd _ NaN = NaN"
| "fadd (Fin a) (Fin b) = Fin (a + b)"
| "fadd PInf NInf = NaN"
| "fadd NInf PInf = NaN"
| "fadd PInf _ = PInf"
| "fadd _ PInf = PInf"
| "fadd NInf _ = NInf"
| "fadd _ NInf = NInf"

definition fsub :: "flt \<Rightarrow> flt \<Rightarrow> flt" where
  "fsub a b = fadd a (fneg b)"

text \<open>The sign of a non-NaN value: \<open>1\<close>, \<open>0\<close> or \<open>-1\<close>.\<close>

fun fsgn :: "flt \<Rightarrow> real" where
  "fsgn (Fin a) = sgn a"
| "fsgn PInf = 1"
| "fsgn NInf = - 1"
| "fsgn NaN = 0"

definition inf_of_sign :: "real \<Rightarrow> flt" where
  "inf_of_sign s = (if s > 0 then PInf else if s < 0 then NInf else NaN)"

fun fmul :: "flt \<Rightarrow> flt \<Rightarrow> flt" where
  "fmul NaN _ = NaN"
| "fmul _ NaN = NaN"
| "fmul (Fin a) (Fin b) = Fin (a * b)"
| "fmul a b = inf_of_sign (fsgn a * fsgn b)"

text \<open>
  Division does not raise on a zero divisor (numpy and pandas warn and go on):
  \<open>x / 0\<close> is an infinity of the sign of \<open>x\<close>, and \<open>0 / 0\<close> is NaN.
\<close>

fun fdiv :: "flt \<Rightarrow> flt \<Rightarrow> flt" where
  "fdiv NaN _ = NaN"
| "fdiv _ NaN = NaN"
| "fdiv (Fin a) (Fin b) = (if b \<noteq> 0 then Fin (a / b) else inf_of_sign (sgn a))"
| "fdiv (Fin a) _ = Fin 0"
| "fdiv a (Fin b) = inf_of_sign (fsgn a * (if b < 0 then - 1 else 1))"
| "fdiv _ _ = NaN"

text \<open>\<open>np.sum\<close> of an array, \<open>0\<close> on the empty one.\<close>

definition fsum :: "flt list \<Rightarrow> flt" where
  "fsum xs = foldr fadd xs (Fin 0)"

text \<open>Comparisons: every comparison with NaN is false.\<close>

fun flt_less :: "flt \<Rightarrow> flt \<Rightarrow> bool" where
  "flt_less NaN _ = False"
| "flt_less _ NaN = False"
| "flt_less (Fin a) (Fin b) = (a < b)"
| "flt_less _ NInf = False"
| "flt_less NInf _ = True"
| "flt_less PInf _ = False"
| "flt_less _ PInf = True"

definition flt_greater :: "flt \<Rightarrow> flt \<Rightarrow> bool" where
  "flt_greater a b = flt_less b a"

text \<open>
  Python's built-in \<open>max(a, b)\<close> keeps \<open>a\<close> unless \<open>b > a\<close>, and \<open>min(a, b)\<close> keeps
  \<open>a\<close> unless \<open>b < a\<close>; so a NaN second argument is discarded.
\<close>

definition py_max :: "flt \<Rightarrow> flt \<Rightarrow> flt" where
  "py_max a b = (if flt_greater b a then b else a)"

definition py_min :: "flt \<Rightarrow> flt \<Rightarrow> flt" where
  "py_min a b = (if flt_less b a then b else a)"

section \<open>Errors\<close>

datatype error = IndexError | ValueError | TypeError | LinAlgError | KeyError | UpstreamError

definition bindE :: "error + 'a \<Rightarrow> ('a \<Rightarrow> error + 'b) \<Rightarrow> error + 'b" where
  "bindE m f = (case m of Inl e \<Rightarrow> Inl e | Inr x \<Rightarrow> f x)"

text \<open>\<open>xs[-1]\<close> and \<open>s.iloc[-1]\<close>: the last element, IndexError on an empty sequence.\<close>

definition iloc_last :: "'a list \<Rightarrow> error + 'a" where
  "iloc_last xs = (if xs = [] then Inl IndexError else Inr (last xs))"

text \<open>\<open>xs[-n:]\<close> and \<open>df.tail(n)\<close>: the last \<open>n\<close> elements, all of them when there are fewer.\<close>

definition tail :: "nat \<Rightarrow> 'a list \<Rightarrow> 'a list" where
  "tail n xs = drop (length xs - n) xs"

section \<open>Bars\<close>

text \<open>
  A row of the frame the estimators and the calculator receive. The numeric columns are
  float64 columns: the snapshot adapter coerces them with \<open>errors='coerce'\<close>, so any of
  them can hold NaN.
\<close>

record bar =
  date :: string
  open_p :: flt
  close :: flt
  high :: flt
  low :: flt
  volume :: flt
  amount :: flt

type_synonym dataframe = "bar list"

definition mean :: "real list \<Rightarrow> real" where
  "mean xs = sum_list xs / real (length xs)"

text \<open>
  \<open>s.rolling(w).mean().iloc[-1]\<close>: NaN while the window is not full, and NaN when the
  window holds a NaN (pandas requires \<open>w\<close> observations) or an infinity (pandas turns the
  infinities of the input into NaN before it rolls).
\<close>

definition rolling_mean_last :: "nat \<Rightarrow> flt list \<Rightarrow> flt" where
  "rolling_mean_last w xs =
    (if length xs < w then NaN
     else if list_all is_fin (tail w xs) then Fin (mean (map fin_val (tail w xs)))
     else NaN)"

text \<open>\<open>s.min()\<close> and \<open>s.max()\<close>: over the values that are not NaN; NaN when there is none.\<close>

definition nan_min :: "flt list \<Rightarrow> flt" where
  "nan_min xs =
    (case filter (\<lambda>v. \<not> isna v) xs of
       [] \<Rightarrow> NaN
     | v # vs \<Rightarrow> fold (\<lambda>x m. if flt_less x m then x else m) vs v)"

definition nan_max :: "flt list \<Rightarrow> flt" where
  "nan_max xs =
    (case filter (\<lambda>v. \<not> isna v) xs of
       [] \<Rightarrow> NaN
     | v # vs \<Rightarrow> fold (\<lambda>x m. if flt_greater x m then x else m) vs v)"

section \<open>Indicator Calculator\<close>

text \<open>
  The indicator library \<open>ta\<close> is not part of the repository. Each field is the value at the
  last position of the series the library computes from the given columns.
\<close>

record ta_lib =
  ta_macd :: "flt list \<Rightarrow> flt"
  ta_macd_signal :: "flt list \<Rightarrow> flt"
  ta_macd_diff :: "flt list \<Rightarrow> flt"
  ta_rsi :: "flt list \<Rightarrow> flt"
  ta_stoch :: "flt list \<Rightarrow> flt list \<Rightarrow> flt list \<Rightarrow> flt"
  ta_stoch_signal :: "flt list \<Rightarrow> flt list \<Rightarrow> flt list \<Rightarrow> flt"
  ta_bollinger_hband :: "flt list \<Rightarrow> flt"
  ta_bollinger_mavg :: "flt list \<Rightarrow> flt"
  ta_bollinger_lband :: "flt list \<Rightarrow> flt"

text \<open>\<open>float(v) if not pd.isna(v) else d\<close>\<close>

definition nan_default :: "flt \<Rightarrow> real \<Rightarrow> flt" where
  "nan_default v d = (if \<not> isna v then v else Fin d)"

type_synonym indicators = "string \<rightharpoonup> flt"

definition calculate_all :: "ta_lib \<Rightarrow> dataframe \<Rightarrow> indicators" where
  "calculate_all ta df =
    (if df = [] \<or> length df < 60 then Map.empty
     else
       let cl = map close df; hi = map high df; lo = map low df;
           result = Map.empty;
           result = result(''current_price'' \<mapsto> last cl);
           result = result(''ma5'' \<mapsto> rolling_mean_last 5 cl);
           result = result(''ma10'' \<mapsto> rolling_mean_last 10 cl);
           result = result(''ma20'' \<mapsto> rolling_mean_last 20 cl);
           result = result(''ma60'' \<mapsto> rolling_mean_last 60 cl);
           result = result(''macd'' \<mapsto> nan_default (ta_macd ta cl) 0);
           result = result(''signal'' \<mapsto> nan_default (ta_macd_signal ta cl) 0);
           result = result(''hist'' \<mapsto> nan_default (ta_macd_diff ta cl) 0);
           result = result(''rsi'' \<mapsto> nan_default (ta_rsi ta cl) 50);
           kdj_k = nan_default (ta_stoch ta hi lo cl) 50;
           result = result(''kdj_k'' \<mapsto> kdj_k);
           kdj_d = nan_default (ta_stoch_signal ta hi lo cl) 50;
           result = result(''kdj_d'' \<mapsto> kdj_d);
           result = result(''kdj_j'' \<mapsto> fsub (fmul (Fin 3) kdj_k) (fmul (Fin 2) kdj_d));
           result = result(''boll_upper'' \<mapsto> nan_default (ta_bollinger_hband ta cl) 0);
           result = result(''boll_middle'' \<mapsto> nan_default (ta_bollinger_mavg ta cl) 0);
           result = result(''boll_lower'' \<mapsto> nan_default (ta_bollinger_lband ta cl) 0);
           recent_low = nan_min (tail 20 lo);
           recent_high = nan_max (tail 20 hi);
           result = result(''support_level'' \<mapsto> recent_low);
           result = result(''resistance_level'' \<mapsto> recent_high)
       in result)"

section \<open>Signal Classifier\<close>

datatype signal_type = bullish | bearish | neutral

record signal =
  name :: string
  type :: signal_type
  desc :: string

text \<open>The descriptions and the name of the fourth signal are Chinese text, kept as UTF-8 bytes.\<close>

definition desc_golden_cross :: string where
  "desc_golden_cross = [CHR 0xE9, CHR 0x87, CHR 0x91, CHR 0xE5, CHR 0x8F, CHR 0x89]"

definition desc_death_cross :: string where
  "desc_death_cross = [CHR 0xE6, CHR 0xAD, CHR 0xBB, CHR 0xE5, CHR 0x8F, CHR 0x89]"

definition desc_overbought :: string where
  "desc_overbought = [CHR 0xE8, CHR 0xB6, CHR 0x85, CHR 0xE4, CHR 0xB9, CHR 0xB0]"

definition desc_oversold :: string where
  "desc_oversold = [CHR 0xE8, CHR 0xB6, CHR 0x85, CHR 0xE5, CHR 0x8D, CHR 0x96]"

definition desc_neutral :: string where
  "desc_neutral = [CHR 0xE4, CHR 0xB8, CHR 0xAD, CHR 0xE6, CHR 0x80, CHR 0xA7]"

definition name_ma :: string where
  "name_ma = [CHR 0xE5, CHR 0x9D, CHR 0x87, CHR 0xE7, CHR 0xBA, CHR 0xBF]"

definition desc_bull_stack :: string where
  "desc_bull_stack = [CHR 0xE5, CHR 0xA4, CHR 0x9A, CHR 0xE5, CHR 0xA4, CHR 0xB4,
                      CHR 0xE6, CHR 0x8E, CHR 0x92, CHR 0xE5, CHR 0x88, CHR 0x97]"

definition desc_bear_stack :: string where
  "desc_bear_stack = [CHR 0xE7, CHR 0xA9, CHR 0xBA, CHR 0xE5, CHR 0xA4, CHR 0xB4,
                      CHR 0xE6, CHR 0x8E, CHR 0x92, CHR 0xE5, CHR 0x88, CHR 0x97]"

definition desc_mixed :: string where
  "desc_mixed = [CHR 0xE4, CHR 0xBA, CHR 0xA4, CHR 0xE7, CHR 0xBB, CHR 0x87]"

text \<open>\<open>d.get(k, default)\<close>\<close>

definition dict_get :: "indicators \<Rightarrow> string \<Rightarrow> real \<Rightarrow> flt" where
  "dict_get d k dflt = (case d k of None \<Rightarrow> Fin dflt | Some v \<Rightarrow> v)"

definition macd_signal :: "indicators \<Rightarrow> signal" where
  "macd_signal ind =
    (if flt_greater (dict_get ind ''macd'' 0) (dict_get ind ''signal'' 0)
     then \<lparr>name = ''MACD'', type = bullish, desc = desc_golden_cross\<rparr>
     else \<lparr>name = ''MACD'', type = bearish, desc = desc_death_cross\<rparr>)"

definition rsi_signal :: "indicators \<Rightarrow> signal" where
  "rsi_signal ind =
    (let rsi = dict_get ind ''rsi'' 50 in
     if flt_greater rsi (Fin 70)
     then \<lparr>name = ''RSI'', type = bearish, desc = desc_overbought\<rparr>
     else if flt_less rsi (Fin 30)
     then \<lparr>name = ''RSI'', type = bullish, desc = desc_oversold\<rparr>
     else \<lparr>name = ''RSI'', type = neutral, desc = desc_neutral\<rparr>)"

definition kdj_signal :: "indicators \<Rightarrow> signal" where
  "kdj_signal ind =
    (let kdj_j = dict_get ind ''kdj_j'' 50 in
     if flt_greater kdj_j (Fin 80)
     then \<lparr>name = ''KDJ'', type = bearish, desc = desc_overbought\<rparr>
     else if flt_less kdj_j (Fin 20)
     then \<lparr>name = ''KDJ'', type = bullish, desc = desc_oversold\<rparr>
     else \<lparr>name = ''KDJ'', type = neutral, desc = desc_neutral\<rparr>)"

definition ma_signal :: "indicators \<Rightarrow> signal" where
  "ma_signal ind =
    (let price = dict_get ind ''current_price'' 0;
         ma5 = dict_get ind ''ma5'' 0;
         ma20 = dict_get ind ''ma20'' 0 in
     if flt_greater price ma5 \<and> flt_greater ma5 ma20
     then \<lparr>name = name_ma, type = bullish, desc = desc_bull_stack\<rparr>
     else if flt_less price ma5 \<and> flt_less ma5 ma20
     then \<lparr>name = name_ma, type = bearish, desc = desc_bear_stack\<rparr>
     else \<lparr>name = name_ma, type = neutral, desc = desc_mixed\<rparr>)"

text \<open>The four appends of \<open>get_signals\<close>, in the order of the source.\<close>

definition get_signals :: "indicators \<Rightarrow> signal list" where
  "get_signals ind =
    (let signals = [];
         signals = signals @ [macd_signal ind];
         signals = signals @ [rsi_signal ind];
         signals = signals @ [kdj_signal ind];
         signals = signals @ [ma_signal ind]
     in signals)"

section \<open>Trend Ensemble\<close>

datatype trend = Up | Down | Sideways

record estimate =
  trend :: trend
  price :: flt
  confidence :: flt

text \<open>
  The classifier is scikit-learn's \<open>GradientBoostingClassifier(n_estimators=50, max_depth=3,
  random_state=42)\<close>, which is not part of the repository. It is a parameter: given the
  training rows, their labels and the row to score, \<open>fit\<close> followed by \<open>predict_proba\<close>
  either raises or yields the class probabilities.
\<close>

type_synonym classifier = "flt list list \<Rightarrow> nat list \<Rightarrow> flt list \<Rightarrow> error + real list"

text \<open>
  What the estimators take from libraries and this theory does not work out:
  \<^item> \<open>gbc\<close>: the classifier;
  \<^item> \<open>polyfit_nonfinite\<close>: \<open>np.polyfit(arange(n), y, 1)\<close> on a \<open>y\<close> that holds a NaN or an
    infinity (it raises or yields two coefficients, depending on the linear-algebra
    back end);
  \<^item> \<open>ewm_nonfinite\<close>: the last value of \<open>ewm(span=s).mean()\<close> on a series that holds a NaN
    or an infinity.
\<close>

record libs =
  gbc :: classifier
  polyfit_nonfinite :: "flt list \<Rightarrow> error + flt \<times> flt"
  ewm_nonfinite :: "nat \<Rightarrow> flt list \<Rightarrow> flt"

text \<open>
  The \<open>except\<close> branch shared by the three estimators. It reads the last close itself, so
  on an empty frame it raises in turn.
\<close>

definition fallback :: "dataframe \<Rightarrow> error + estimate" where
  "fallback df =
    bindE (iloc_last (map close df)) (\<lambda>c.
      Inr \<lparr>trend = Sideways, price = c, confidence = Fin 0.5\<rparr>)"

subsection \<open>Estimator A\<close>

text \<open>
  \<open>pd.Series(xs).ewm(span=s).mean().iloc[-1]\<close> with the default \<open>adjust=True\<close>: on finite
  values, the average of the values weighted by \<open>(1 - a) ^ i\<close>, \<open>i\<close> counting back from the
  last one, where \<open>a = 2 / (s + 1)\<close>.
\<close>

definition ewm_finite :: "nat \<Rightarrow> real list \<Rightarrow> real" where
  "ewm_finite spn xs =
    (let a = 2 / (real spn + 1);
         ws = map (\<lambda>i. (1 - a) ^ i) [0..<length xs]
     in sum_list (map2 (*) ws (rev xs)) / sum_list ws)"

definition ewm_mean_last :: "libs \<Rightarrow> nat \<Rightarrow> flt list \<Rightarrow> error + flt" where
  "ewm_mean_last L spn xs =
    (if xs = [] then Inl IndexError
     else if list_all is_fin xs then Inr (Fin (ewm_finite spn (map fin_val xs)))
     else Inr (ewm_nonfinite L spn xs))"

text \<open>\<open>np.diff(xs)\<close>: the differences of neighbours, one fewer than the elements.\<close>

definition np_diff :: "flt list \<Rightarrow> flt list" where
  "np_diff xs = map2 (\<lambda>a b. fsub b a) xs (tl xs)"

text \<open>
  \<open>a / b\<close> on one-dimensional arrays: elementwise when the lengths agree, an array of
  length one is stretched, and any other pair of lengths raises ValueError
  ("operands could not be broadcast together").
\<close>

definition np_divide :: "flt list \<Rightarrow> flt list \<Rightarrow> error + flt list" where
  "np_divide xs ys =
    (if length xs = length ys then Inr (map2 fdiv xs ys)
     else if length xs = 1 then Inr (map (\<lambda>y. fdiv (hd xs) y) ys)
     else if length ys = 1 then Inr (map (\<lambda>x. fdiv x (hd ys)) xs)
     else Inl ValueError)"

text \<open>\<open>np.sum(rs > 0) / len(rs)\<close> and \<open>np.sum(rs < 0) / len(rs)\<close>\<close>

definition frac_positive :: "flt list \<Rightarrow> flt" where
  "frac_positive rs =
    fdiv (Fin (real (length (filter (\<lambda>r. flt_greater r (Fin 0)) rs)))) (Fin (real (length rs)))"

definition frac_negative :: "flt list \<Rightarrow> flt" where
  "frac_negative rs =
    fdiv (Fin (real (length (filter (\<lambda>r. flt_less r (Fin 0)) rs)))) (Fin (real (length rs)))"

text \<open>The body of the \<open>try\<close> block of \<open>_lstm_predict\<close>.\<close>

definition lstm_try :: "libs \<Rightarrow> dataframe \<Rightarrow> error + estimate" where
  "lstm_try L df =
    (let cl = map close df in
     bindE (ewm_mean_last L 5 cl) (\<lambda>ema_short.
     bindE (ewm_mean_last L 20 cl) (\<lambda>ema_long.
     bindE (iloc_last cl) (\<lambda>current_price.
       let trend_factor = fdiv (fsub ema_short ema_long) ema_long;
           predicted_price =
             fmul current_price (fadd (Fin 1) (fmul trend_factor (Fin 0.5)));
           trend =
             (if flt_greater predicted_price (fmul current_price (Fin 1.01)) then Up
              else if flt_less predicted_price (fmul current_price (Fin 0.99)) then Down
              else Sideways)
       in
       bindE (np_divide (np_diff (tail 10 cl)) (butlast (tail 11 cl))) (\<lambda>recent_returns.
         let consistency =
               (if trend = Up then frac_positive recent_returns
                else frac_negative recent_returns);
             confidence = py_min (Fin 0.9) (py_max (Fin 0.3) consistency)
         in Inr \<lparr>trend = trend, price = predicted_price, confidence = confidence\<rparr>)))))"

definition lstm_predict :: "libs \<Rightarrow> dataframe \<Rightarrow> error + estimate" where
  "lstm_predict L df = (case lstm_try L df of Inr r \<Rightarrow> Inr r | Inl e \<Rightarrow> fallback df)"

subsection \<open>Estimator B\<close>

text \<open>
  The line through the points \<open>(xs, ys)\<close> with the least sum of squared residuals, in closed
  form: slope and intercept.
\<close>

definition ols_line :: "real list \<Rightarrow> real list \<Rightarrow> real \<times> real" where
  "ols_line xs ys =
    (let mx = mean xs; my = mean ys;
         sxx = sum_list (map (\<lambda>x. (x - mx)\<^sup>2) xs);
         sxy = sum_list (map2 (\<lambda>x y. (x - mx) * (y - my)) xs ys);
         slope = sxy / sxx;
         intercept = my - slope * mx
     in (slope, intercept))"

text \<open>
  \<open>np.polyfit(x, y, 1)\<close> belongs to numpy, not to the repository. On finite values it is
  modelled by the least-squares line, which is what it returns when the abscissas are not
  all equal. An empty \<open>x\<close> raises TypeError; a single point leaves the line undetermined
  and is modelled as a failure (the service never calls it with fewer than 30 points).
\<close>

definition polyfit1 :: "libs \<Rightarrow> real list \<Rightarrow> flt list \<Rightarrow> error + flt \<times> flt" where
  "polyfit1 L xs ys =
    (if xs = [] then Inl TypeError
     else if length xs < 2 then Inl LinAlgError
     else if list_all is_fin ys then
       (let (slope, intercept) = ols_line xs (map fin_val ys) in Inr (Fin slope, Fin intercept))
     else polyfit_nonfinite L ys)"

text \<open>\<open>np.arange(n)\<close>\<close>

definition arange :: "nat \<Rightarrow> real list" where
  "arange n = map real [0..<n]"

text \<open>
  The coefficient of determination as \<open>_prophet_predict\<close> computes it: \<open>y_pred\<close>, \<open>ss_res\<close>,
  \<open>ss_tot\<close> and \<open>r2\<close>, with \<open>r2 = 0\<close> when \<open>ss_tot\<close> is not positive. The arithmetic on
  finite values is exact. In float64 \<open>np.mean\<close> of thirty equal closes need not be that
  close again, so that \<open>ss_tot\<close> can be a positive rounding residue on a constant window;
  exact arithmetic does not show this.
\<close>

definition r_squared :: "real list \<Rightarrow> flt list \<Rightarrow> flt \<Rightarrow> flt \<Rightarrow> flt" where
  "r_squared x cl slope intercept =
    (let y_pred = map (\<lambda>x. fadd (fmul slope (Fin x)) intercept) x;
         ss_res = fsum (map2 (\<lambda>c p. fmul (fsub c p) (fsub c p)) cl y_pred);
         m = fdiv (fsum cl) (Fin (real (length cl)));
         ss_tot = fsum (map (\<lambda>c. fmul (fsub c m) (fsub c m)) cl)
     in if flt_greater ss_tot (Fin 0) then fsub (Fin 1) (fdiv ss_res ss_tot) else Fin 0)"

definition prophet_try :: "libs \<Rightarrow> dataframe \<Rightarrow> error + estimate" where
  "prophet_try L df =
    (let cl = tail 30 (map close df);
         x = arange (length cl) in
     bindE (polyfit1 L x cl) (\<lambda>(slope, intercept).
       let future_x = real (length cl + 5);
           predicted_price = fadd (fmul slope (Fin future_x)) intercept in
       bindE (iloc_last cl) (\<lambda>current_price.
         let trend =
               (if flt_greater slope (Fin 0) \<and>
                   flt_greater predicted_price (fmul current_price (Fin 1.01)) then Up
                else if flt_less slope (Fin 0) \<and>
                   flt_less predicted_price (fmul current_price (Fin 0.99)) then Down
                else Sideways);
             r2 = r_squared x cl slope intercept;
             confidence = py_min (Fin 0.9) (py_max (Fin 0.3) (fabs r2))
         in Inr \<lparr>trend = trend, price = predicted_price, confidence = confidence\<rparr>)))"

definition prophet_predict :: "libs \<Rightarrow> dataframe \<Rightarrow> error + estimate" where
  "prophet_predict L df = (case prophet_try L df of Inr r \<Rightarrow> Inr r | Inl e \<Rightarrow> fallback df)"

subsection \<open>Estimator C\<close>

text \<open>\<open>s.ffill()\<close>: a NaN takes the last value before it that is not NaN.\<close>

fun ffill_from :: "flt \<Rightarrow> flt list \<Rightarrow> flt list" where
  "ffill_from prev [] = []"
| "ffill_from prev (x # xs) =
     (if isna x then prev # ffill_from prev xs else x # ffill_from x xs)"

definition ffill :: "flt list \<Rightarrow> flt list" where
  "ffill xs = ffill_from NaN xs"

text \<open>
  The derived columns of \<open>df_features\<close>, each as long as the frame. \<open>pct_change(n)\<close> fills
  forward before it divides (its default \<open>fill_method\<close>); a row where the filling matters
  has a NaN in its 20-bar window and is removed by \<open>dropna\<close> below.
\<close>

definition pct_change :: "nat \<Rightarrow> flt list \<Rightarrow> flt list" where
  "pct_change n xs =
    (let f = ffill xs in
     map (\<lambda>t. if t < n then NaN else fsub (fdiv (f ! t) (f ! (t - n))) (Fin 1))
       [0..<length xs])"

definition rolling_mean :: "nat \<Rightarrow> flt list \<Rightarrow> flt list" where
  "rolling_mean w xs = map (\<lambda>t. rolling_mean_last w (take (Suc t) xs)) [0..<length xs]"

text \<open>\<open>rolling(w).std()\<close>: the sample standard deviation (divisor \<open>w - 1\<close>) of a full window.\<close>

definition sample_std :: "real list \<Rightarrow> real" where
  "sample_std xs = sqrt (sum_list (map (\<lambda>x. (x - mean xs)\<^sup>2) xs) / (real (length xs) - 1))"

definition rolling_std_last :: "nat \<Rightarrow> flt list \<Rightarrow> flt" where
  "rolling_std_last w xs =
    (if length xs < w then NaN
     else if list_all is_fin (tail w xs) then Fin (sample_std (map fin_val (tail w xs)))
     else NaN)"

definition rolling_std :: "nat \<Rightarrow> flt list \<Rightarrow> flt list" where
  "rolling_std w xs = map (\<lambda>t. rolling_std_last w (take (Suc t) xs)) [0..<length xs]"

text \<open>
  \<open>(close.shift(-5) > close).astype(int)\<close>: on the last five rows the shifted value is NaN,
  the comparison is false and the label is \<open>0\<close>, not missing.
\<close>

definition target_col :: "flt list \<Rightarrow> nat list" where
  "target_col xs =
    map (\<lambda>t. if t + 5 < length xs \<and> flt_greater (xs ! (t + 5)) (xs ! t) then 1 else 0)
      [0..<length xs]"

text \<open>A row of \<open>df_features\<close>: its index, the columns of the bar and the derived columns.\<close>

record feature_row =
  idx :: nat
  row_bar :: bar
  return_1 :: flt
  return_5 :: flt
  return_10 :: flt
  ma5 :: flt
  ma20 :: flt
  ma_ratio :: flt
  volatility :: flt
  target :: nat

definition build_features :: "dataframe \<Rightarrow> feature_row list" where
  "build_features df =
    (let cl = map close df;
         r1 = pct_change 1 cl; r5 = pct_change 5 cl; r10 = pct_change 10 cl;
         m5 = rolling_mean 5 cl; m20 = rolling_mean 20 cl;
         vol = rolling_std 10 cl; tg = target_col cl
     in map (\<lambda>t. \<lparr>idx = t, row_bar = df ! t,
                   return_1 = r1 ! t, return_5 = r5 ! t, return_10 = r10 ! t,
                   ma5 = m5 ! t, ma20 = m20 ! t, ma_ratio = fdiv (m5 ! t) (m20 ! t),
                   volatility = vol ! t, target = tg ! t\<rparr>) [0..<length df])"

text \<open>
  \<open>dropna()\<close> removes the rows holding a NaN in any column, those of the bar included. The
  label is an integer and never NaN.
\<close>

definition row_has_na :: "feature_row \<Rightarrow> bool" where
  "row_has_na r \<longleftrightarrow>
     isna (open_p (row_bar r)) \<or> isna (close (row_bar r)) \<or> isna (high (row_bar r)) \<or>
     isna (low (row_bar r)) \<or> isna (volume (row_bar r)) \<or> isna (amount (row_bar r)) \<or>
     isna (return_1 r) \<or> isna (return_5 r) \<or> isna (return_10 r) \<or> isna (ma5 r) \<or>
     isna (ma20 r) \<or> isna (ma_ratio r) \<or> isna (volatility r)"

definition dropna :: "feature_row list \<Rightarrow> feature_row list" where
  "dropna rows = filter (\<lambda>r. \<not> row_has_na r) rows"

definition feature_cols :: "feature_row \<Rightarrow> flt list" where
  "feature_cols r = [return_1 r, return_5 r, return_10 r, ma_ratio r, volatility r]"

text \<open>\<open>xs[:-5]\<close>\<close>

definition but_last5 :: "'a list \<Rightarrow> 'a list" where
  "but_last5 xs = take (length xs - 5) xs"

text \<open>\<open>xs[i]\<close> for a non-negative index.\<close>

definition py_index :: "'a list \<Rightarrow> nat \<Rightarrow> error + 'a" where
  "py_index xs i = (if i < length xs then Inr (xs ! i) else Inl IndexError)"

definition xgboost_try :: "libs \<Rightarrow> dataframe \<Rightarrow> error + estimate" where
  "xgboost_try L df =
    (let df_features = dropna (build_features df) in
     if length df_features < 50 then fallback df
     else
       let X = map feature_cols (but_last5 df_features);
           y = map target (but_last5 df_features) in
       bindE (iloc_last df_features) (\<lambda>latest.
       bindE (gbc L X y (feature_cols latest)) (\<lambda>prob.
       bindE (py_index prob 1) (\<lambda>p1.
       bindE (py_index prob 0) (\<lambda>p0.
         let (trend, confidence) =
               (if p1 > 0.6 then (Up, p1)
                else if p0 > 0.6 then (Down, p0)
                else (Sideways, Max (set prob))) in
         bindE (iloc_last (map close df)) (\<lambda>current_price.
           let predicted_price =
                 (if trend = Up then fmul current_price (Fin (1 + 0.03 * confidence))
                  else if trend = Down then fmul current_price (Fin (1 - 0.03 * confidence))
                  else current_price)
           in Inr \<lparr>trend = trend, price = predicted_price,
                    confidence = Fin confidence\<rparr>))))))"

definition xgboost_predict :: "libs \<Rightarrow> dataframe \<Rightarrow> error + estimate" where
  "xgboost_predict L df =
    (case xgboost_try L df of Inr r \<Rightarrow> Inr r | Inl e \<Rightarrow> fallback df)"

subsection \<open>The merged record\<close>

record prediction =
  lstm_trend :: trend
  lstm_price :: flt
  lstm_confidence :: flt
  prophet_trend :: trend
  prophet_price :: flt
  prophet_confidence :: flt
  xgboost_trend :: trend
  xgboost_price :: flt
  xgboost_confidence :: flt

definition empty_result :: prediction where
  "empty_result =
    \<lparr>lstm_trend = Sideways, lstm_price = Fin 0, lstm_confidence = Fin 0.5,
     prophet_trend = Sideways, prophet_price = Fin 0, prophet_confidence = Fin 0.5,
     xgboost_trend = Sideways, xgboost_price = Fin 0, xgboost_confidence = Fin 0.5\<rparr>"

definition predict_all :: "libs \<Rightarrow> dataframe \<Rightarrow> error + prediction" where
  "predict_all L df =
    (if df = [] \<or> length df < 60 then Inr empty_result
     else
       bindE (lstm_predict L df) (\<lambda>lstm_result.
       bindE (prophet_predict L df) (\<lambda>prophet_result.
       bindE (xgboost_predict L df) (\<lambda>xgb_result.
         Inr \<lparr>lstm_trend = trend lstm_result,
              lstm_price = price lstm_result,
              lstm_confidence = confidence lstm_result,
              prophet_trend = trend prophet_result,
              prophet_price = price prophet_result,
              prophet_confidence = confidence prophet_result,
              xgboost_trend = trend xgb_result,
              xgboost_price = price xgb_result,
              xgboost_confidence = confidence xgb_result\<rparr>))))"

section \<open>Kline Retriever\<close>

text \<open>
  What lies outside the process is a parameter. \<open>'raw\<close> is a row as the historical provider
  delivers it, \<open>'json\<close> an element of the decoded snapshot payload and \<open>'row\<close> a row of the
  normalised frame.
  \<^item> \<open>sina_get symbol scale\<close>: the HTTP request of the snapshot adapter (sent with
    \<open>datalen=250\<close>); it raises or yields the status code and the body.
  \<^item> \<open>json_loads\<close>: \<open>json.loads\<close> on the text between the parentheses.
  \<^item> \<open>sina_frame\<close>: building the frame from the payload, renaming and coercing its columns.
  \<^item> \<open>ak_hist retry code period\<close>: the call \<open>ak.stock_zh_a_hist\<close> of attempt \<open>retry\<close>
    (always with \<open>adjust="qfq"\<close>); it raises, yields \<open>None\<close> or a frame.
  \<^item> \<open>ak_normalize\<close>: renaming and selecting the columns and formatting the date.
  A frame is the list of its rows; an empty frame is the empty list. The pauses between
  attempts (\<open>time.sleep\<close>) have no effect on the result and are left out.
\<close>

record ('raw, 'json, 'row) upstream =
  sina_get :: "string \<Rightarrow> string \<Rightarrow> error + nat \<times> string"
  json_loads :: "string \<Rightarrow> error + 'json list"
  sina_frame :: "'json list \<Rightarrow> error + 'row list"
  ak_hist :: "nat \<Rightarrow> string \<Rightarrow> string \<Rightarrow> error + 'raw list option"
  ak_normalize :: "'raw list \<Rightarrow> error + 'row list"

text \<open>\<open>s.find(c)\<close> and \<open>s.rfind(c)\<close>: the first and the last position of \<open>c\<close>, or \<open>-1\<close>.\<close>

fun str_find :: "char \<Rightarrow> string \<Rightarrow> int" where
  "str_find c [] = - 1"
| "str_find c (x # xs) =
     (if x = c then 0 else let r = str_find c xs in if r < 0 then - 1 else r + 1)"

definition str_rfind :: "char \<Rightarrow> string \<Rightarrow> int" where
  "str_rfind c s = (let r = str_find c (rev s) in if r < 0 then - 1 else int (length s) - 1 - r)"

text \<open>\<open>s[a:b]\<close> for \<open>0 \<le> a\<close> and \<open>0 \<le> b\<close>\<close>

definition slice :: "int \<Rightarrow> int \<Rightarrow> 'a list \<Rightarrow> 'a list" where
  "slice a b s = take (nat (b - a)) (drop (nat a) s)"

definition scale_map :: "string \<rightharpoonup> string" where
  "scale_map = [''daily'' \<mapsto> ''240'', ''weekly'' \<mapsto> ''1680'', ''monthly'' \<mapsto> ''7200'']"

text \<open>The body of the \<open>try\<close> block of \<open>_get_kline_sina\<close>; falling out of it yields \<open>Inr []\<close>.\<close>

definition sina_try :: "('raw, 'json, 'row) upstream \<Rightarrow> string \<Rightarrow> string \<Rightarrow> error + 'row list" where
  "sina_try up code period =
    (let symbol = (if take 1 code = ''6'' then ''sh'' @ code else ''sz'' @ code);
         scale = (case scale_map period of None \<Rightarrow> ''240'' | Some v \<Rightarrow> v) in
     bindE (sina_get up symbol scale) (\<lambda>(status_code, text).
       if status_code = 200 then
         let start = str_find CHR ''('' text + 1;
             end = str_rfind CHR '')'' text in
         if start > 0 \<and> end > start then
           bindE (json_loads up (slice start end text)) (\<lambda>data.
             if data \<noteq> [] then
               bindE (sina_frame up data) (\<lambda>df. Inr df)
             else Inr [])
         else Inr []
       else Inr []))"

definition get_kline_sina :: "('raw, 'json, 'row) upstream \<Rightarrow> string \<Rightarrow> string \<Rightarrow> 'row list" where
  "get_kline_sina up code period =
    (case sina_try up code period of Inr df \<Rightarrow> df | Inl e \<Rightarrow> [])"

text \<open>
  One pass of the retry loop of \<open>_get_kline_akshare\<close>: \<open>Inr (Some df)\<close> when the pass
  returns \<open>df\<close>, \<open>Inr None\<close> when it falls through to the next pass, \<open>Inl\<close> when it raises
  (which the loop catches).
\<close>

definition ak_attempt ::
  "('raw, 'json, 'row) upstream \<Rightarrow> string \<Rightarrow> string \<Rightarrow> nat \<Rightarrow> error + 'row list option" where
  "ak_attempt up code period retry =
    (let p = (if period = ''weekly'' then ''weekly''
              else if period = ''monthly'' then ''monthly'' else ''daily'') in
     bindE (ak_hist up retry code p) (\<lambda>df.
       case df of
         None \<Rightarrow> Inr None
       | Some raw \<Rightarrow>
           if raw \<noteq> [] then bindE (ak_normalize up raw) (\<lambda>df. Inr (Some (tail 250 df)))
           else Inr None))"

fun ak_loop ::
  "('raw, 'json, 'row) upstream \<Rightarrow> string \<Rightarrow> string \<Rightarrow> nat list \<Rightarrow> 'row list" where
  "ak_loop up code period [] = []"
| "ak_loop up code period (retry # rest) =
     (case ak_attempt up code period retry of
        Inr (Some df) \<Rightarrow> df
      | Inr None \<Rightarrow> ak_loop up code period rest
      | Inl e \<Rightarrow> ak_loop up code period rest)"

definition get_kline_akshare ::
  "('raw, 'json, 'row) upstream \<Rightarrow> string \<Rightarrow> string \<Rightarrow> 'row list" where
  "get_kline_akshare up code period = ak_loop up code period [0, 1, 2]"

definition get_kline :: "('raw, 'json, 'row) upstream \<Rightarrow> string \<Rightarrow> string \<Rightarrow> 'row list" where
  "get_kline up code period =
    (let df = get_kline_sina up code period in
     if df \<noteq> [] then df
     else
       let df = get_kline_akshare up code period in
       if df \<noteq> [] then df
       else [])"

section \<open>Stock directory\<close>

record stock =
  code :: string
  name :: string
  market :: string

text \<open>
  \<open>get_stock_list\<close> is a cached download; its value \<open>all_stocks\<close> is a parameter. So is
  \<open>str.upper\<close>, which works on Unicode code points and not on the bytes of a string.
\<close>

definition search_stocks :: "(string \<Rightarrow> string) \<Rightarrow> stock list \<Rightarrow> string \<Rightarrow> stock list" where
  "search_stocks upper all_stocks keyword =
    (if keyword = [] then all_stocks
     else
       let keyword = upper keyword in
       take 100
         (filter (\<lambda>s. sublist keyword (code s) \<or> sublist keyword (upper (name s))) all_stocks))"

text \<open>
  The condition of the comprehension in \<open>search_stocks\<close>, for the keyword as the caller
  passed it: the upper-cased keyword occurs in the code, or in the upper-cased name.
\<close>

definition matches :: "(string \<Rightarrow> string) \<Rightarrow> string \<Rightarrow> stock \<Rightarrow> bool" where
  "matches upper keyword s \<longleftrightarrow>
     sublist (upper keyword) (code s) \<or> sublist (upper keyword) (upper (name s))"

section \<open>Notions used in the properties\<close>

text \<open>
  The clamp \<open>min(0.9, max(0.3, c))\<close> that Estimators A and B apply, and membership of a
  confidence in the interval from 0.3 to 0.9.
\<close>

definition clamp_confidence :: "flt \<Rightarrow> flt" where
  "clamp_confidence c = py_min (Fin 0.9) (py_max (Fin 0.3) c)"

definition in_clamp_range :: "flt \<Rightarrow> bool" where
  "in_clamp_range c = (case c of Fin r \<Rightarrow> 0.3 \<le> r \<and> r \<le> 0.9 | _ \<Rightarrow> False)"

text \<open>
  The last ten daily returns of a series: the differences of the last eleven closes, each
  divided by the earlier close. This is the quantity the confidence of Estimator A is
  described by; \<open>_lstm_predict\<close> itself takes the differences of the last ten closes.
\<close>

definition spec_last_returns :: "dataframe \<Rightarrow> flt list" where
  "spec_last_returns df =
    (let cl = tail 11 (map close df)
     in map2 (\<lambda>d c. fdiv d c) (np_diff cl) (butlast cl))"

text \<open>The sum of squared residuals of the line \<open>a * x + b\<close> on the points \<open>(xs, ys)\<close>.\<close>

definition sse :: "real list \<Rightarrow> real list \<Rightarrow> real \<Rightarrow> real \<Rightarrow> real" where
  "sse xs ys a b = sum_list (map2 (\<lambda>x y. (y - (a * x + b))\<^sup>2) xs ys)"

text \<open>The closes of a frame as reals, for frames whose closes are finite.\<close>

definition closes :: "dataframe \<Rightarrow> real list" where
  "closes df = map (\<lambda>b. fin_val (close b)) df"

text \<open>
  A frame without a missing value in the columns of its bars, whose closes are finite
  positive prices.
\<close>

definition clean_frame :: "dataframe \<Rightarrow> bool" where
  "clean_frame df \<longleftrightarrow>
     (\<forall>b\<in>set df. is_fin (close b) \<and> 0 < fin_val (close b) \<and> \<not> isna (open_p b) \<and>
        \<not> isna (high b) \<and> \<not> isna (low b) \<and> \<not> isna (volume b) \<and> \<not> isna (amount b))"


section \<open>Sample inputs\<close>

definition sample_bar :: "real \<Rightarrow> bar" where
  "sample_bar c = \<lparr>date = ''2024-01-02'', open_p = Fin c, close = Fin c, high = Fin c,
                   low = Fin c, volume = Fin 1000, amount = Fin 0\<rparr>"

text \<open>An indicator library all of whose series end in NaN, and one with fixed finite outputs.\<close>

definition ta_undefined :: ta_lib where
  "ta_undefined =
    \<lparr>ta_macd = (\<lambda>_. NaN), ta_macd_signal = (\<lambda>_. NaN), ta_macd_diff = (\<lambda>_. NaN),
     ta_rsi = (\<lambda>_. NaN), ta_stoch = (\<lambda>_ _ _. NaN), ta_stoch_signal = (\<lambda>_ _ _. NaN),
     ta_bollinger_hband = (\<lambda>_. NaN), ta_bollinger_mavg = (\<lambda>_. NaN),
     ta_bollinger_lband = (\<lambda>_. NaN)\<rparr>"

definition ta_sample :: ta_lib where
  "ta_sample =
    \<lparr>ta_macd = (\<lambda>_. Fin 1), ta_macd_signal = (\<lambda>_. Fin 2), ta_macd_diff = (\<lambda>_. Fin (- 1)),
     ta_rsi = (\<lambda>_. Fin 55), ta_stoch = (\<lambda>_ _ _. Fin 80), ta_stoch_signal = (\<lambda>_ _ _. Fin 60),
     ta_bollinger_hband = (\<lambda>_. Fin 110), ta_bollinger_mavg = (\<lambda>_. Fin 100),
     ta_bollinger_lband = (\<lambda>_. Fin 90)\<rparr>"

text \<open>
  Three series of \<open>n\<close> bars: one that closes at 100 throughout; one that rises by 1 a bar
  from 100; one that falls by 2 a bar from 160 to 100 at bar 30 and rises by 1 a bar from
  there.
\<close>

definition flat_series :: "nat \<Rightarrow> dataframe" where
  "flat_series n = replicate n (sample_bar 100)"

definition rising_series :: "nat \<Rightarrow> dataframe" where
  "rising_series n = map (\<lambda>t. sample_bar (100 + real t)) [0..<n]"

definition vee_close :: "nat \<Rightarrow> real" where
  "vee_close t = (if t \<le> 30 then 160 - 2 * real t else 70 + real t)"

definition vee_series :: "nat \<Rightarrow> dataframe" where
  "vee_series n = map (\<lambda>t. sample_bar (vee_close t)) [0..<n]"

text \<open>
  A stand-in for the classifier fitted on the 69-bar series \<open>vee_series 69\<close>. Like
  scikit-learn it raises on an empty training set, on a feature that is not finite and on
  labels of a single class. Otherwise it answers with the probabilities 0.0015 for "down"
  and 0.9985 for "up". On \<open>vee_series 69\<close> the 45 training rows hold 10 labels \<open>0\<close> (the
  falling bars) and 35 labels \<open>1\<close>, every boosting stage separates the two classes, and
  the row to score lies among the rising bars: fifty stages of learning rate 0.1 bring its
  probability of "up" to about 0.9985.
\<close>

definition gbc_on_vee :: classifier where
  "gbc_on_vee X y x =
    (if X = [] \<or> \<not> list_all (list_all is_fin) X \<or> \<not> list_all is_fin x \<or>
        0 \<notin> set y \<or> 1 \<notin> set y
     then Inl ValueError
     else Inr [0.0015, 0.9985])"

definition libs_sample :: libs where
  "libs_sample =
    \<lparr>gbc = gbc_on_vee,
     polyfit_nonfinite = (\<lambda>ys. Inl LinAlgError),
     ewm_nonfinite = (\<lambda>spn xs. NaN)\<rparr>"

text \<open>Upper-casing of the ASCII letters, and a directory of 151 entries.\<close>

definition ascii_upper :: "string \<Rightarrow> string" where
  "ascii_upper s =
    map (\<lambda>c. case map_of (zip ''abcdefghijklmnopqrstuvwxyz'' ''ABCDEFGHIJKLMNOPQRSTUVWXYZ'') c of
                None \<Rightarrow> c | Some u \<Rightarrow> u) s"

definition sample_directory :: "stock list" where
  "sample_directory =
    replicate 150 \<lparr>code = ''600519'', name = ''Kweichow Moutai'', market = ''SH''\<rparr> @
    [\<lparr>code = ''000001'', name = ''Ping An Bank'', market = ''SZ''\<rparr>]"

text \<open>
  Two surroundings of the Kline Retriever. In the first the snapshot provider answers with
  251 rows. In the second the snapshot request fails, the first call of the historical
  provider fails and the later ones deliver 300 rows. Rows are numbered from the oldest.
\<close>

definition up_long_snapshot :: "(nat, nat, nat) upstream" where
  "up_long_snapshot =
    \<lparr>sina_get = (\<lambda>symbol scale. Inr (200, ''cb([...])'')),
     json_loads = (\<lambda>txt. Inr [0..<251]),
     sina_frame = (\<lambda>data. Inr data),
     ak_hist = (\<lambda>retry scode period. Inl UpstreamError),
     ak_normalize = (\<lambda>raw. Inl KeyError)\<rparr>"

definition up_history_300 :: "(nat, nat, nat) upstream" where
  "up_history_300 =
    \<lparr>sina_get = (\<lambda>symbol scale. Inl UpstreamError),
     json_loads = (\<lambda>txt. Inl ValueError),
     sina_frame = (\<lambda>data. Inl KeyError),
     ak_hist = (\<lambda>retry scode period. if retry = 0 then Inl UpstreamError else Inr (Some [0..<300])),
     ak_normalize = (\<lambda>raw. Inr raw)\<rparr>"

section \<open>Properties\<close>

subsection \<open>Short series\<close>

text \<open>
  C1. On a series of fewer than 60 bars, the empty one included, \<open>calculate_all\<close> returns the
  empty mapping and \<open>predict_all\<close> returns the fixed record: the three trends are
  \<open>sideways\<close>, the three prices \<open>0\<close> and the three confidences \<open>0.5\<close>.
\<close>

theorem short_series_defaults:
  "length df < 60 \<Longrightarrow>
   calculate_all ta df = Map.empty \<and>
   predict_all L df =
     Inr \<lparr>lstm_trend = Sideways, lstm_price = Fin 0, lstm_confidence = Fin 0.5,
          prophet_trend = Sideways, prophet_price = Fin 0, prophet_confidence = Fin 0.5,
          xgboost_trend = Sideways, xgboost_price = Fin 0, xgboost_confidence = Fin 0.5\<rparr>"
  by (simp add: calculate_all_def predict_all_def empty_result_def)

theorem short_series_defaults_witness:
  "length [sample_bar 10] < 60 \<and>
   calculate_all ta_undefined [sample_bar 10] = Map.empty \<and>
   predict_all libs_sample [sample_bar 10] =
     Inr \<lparr>lstm_trend = Sideways, lstm_price = Fin 0, lstm_confidence = Fin 0.5,
          prophet_trend = Sideways, prophet_price = Fin 0, prophet_confidence = Fin 0.5,
          xgboost_trend = Sideways, xgboost_price = Fin 0, xgboost_confidence = Fin 0.5\<rparr>"
proof -
  have h: "length [sample_bar 10] < 60" by simp
  show ?thesis using h short_series_defaults [OF h] by simp
qed

subsection \<open>Signals\<close>



subsection \<open>The KDJ identity\<close>

text \<open>
  C9. On a series of at least 60 bars the indicator set holds \<open>kdj_k\<close>, \<open>kdj_d\<close> and
  \<open>kdj_j\<close>, neither \<open>kdj_k\<close> nor \<open>kdj_d\<close> is NaN, and \<open>kdj_j\<close> is \<open>3 \<times> kdj_k - 2 \<times> kdj_d\<close>
  computed from these two values; for finite values this is the real number
  \<open>3 * k - 2 * d\<close>.
\<close>

theorem kdj_j_identity:
  assumes "60 \<le> length df"
  shows "\<exists>k d j. calculate_all ta df ''kdj_k'' = Some k \<and>
           calculate_all ta df ''kdj_d'' = Some d \<and>
           calculate_all ta df ''kdj_j'' = Some j \<and> \<not> isna k \<and> \<not> isna d \<and>
           j = fsub (fmul (Fin 3) k) (fmul (Fin 2) d) \<and>
           (\<forall>kr dr. k = Fin kr \<and> d = Fin dr \<longrightarrow> j = Fin (3 * kr - 2 * dr))"
proof -
  from assms have ne: "df \<noteq> []" "\<not> length df < 60" by auto
  show ?thesis using ne
    by (auto simp add: calculate_all_def Let_def nan_default_def fsub_def)
qed

theorem kdj_j_identity_witness:
  "60 \<le> length (flat_series 60) \<and>
   calculate_all ta_sample (flat_series 60) ''kdj_k'' = Some (Fin 80) \<and>
   calculate_all ta_sample (flat_series 60) ''kdj_d'' = Some (Fin 60) \<and>
   calculate_all ta_sample (flat_series 60) ''kdj_j'' = Some (Fin 120)"
proof -
  have h: "60 \<le> length (flat_series 60)" by (simp add: flat_series_def)
  from kdj_j_identity [OF h, of ta_sample] obtain k d j where
    k: "calculate_all ta_sample (flat_series 60) ''kdj_k'' = Some k" and
    d: "calculate_all ta_sample (flat_series 60) ''kdj_d'' = Some d" and
    j: "calculate_all ta_sample (flat_series 60) ''kdj_j'' = Some j" and
    fin: "\<forall>kr dr. k = Fin kr \<and> d = Fin dr \<longrightarrow> j = Fin (3 * kr - 2 * dr)"
    by blast
  have k80: "calculate_all ta_sample (flat_series 60) ''kdj_k'' = Some (Fin 80)"
    by (simp add: calculate_all_def flat_series_def Let_def nan_default_def ta_sample_def)
  have d60: "calculate_all ta_sample (flat_series 60) ''kdj_d'' = Some (Fin 60)"
    by (simp add: calculate_all_def flat_series_def Let_def nan_default_def ta_sample_def)
  from k k80 have "k = Fin 80" by simp
  moreover from d d60 have "d = Fin 60" by simp
  ultimately have "j = Fin (3 * 80 - 2 * 60)" using fin by blast
  then have "j = Fin 120" by simp
  with h k80 d60 j show ?thesis by simp
qed

subsection \<open>Thresholds of the RSI and KDJ signals\<close>

text \<open>
  C8. The thresholds are strict. An RSI of exactly 70 is neutral and an RSI above 70 is
  bearish; an RSI of exactly 30 is neutral and an RSI below 30 is bullish. The KDJ signal
  is bearish exactly when \<open>J > 80\<close>, bullish exactly when \<open>J < 20\<close> (and not above 80), and
  neutral exactly when neither holds. A missing key reads as 50.
\<close>

theorem rsi_kdj_thresholds:
  "(dict_get ind ''rsi'' 50 = Fin 70 \<longrightarrow> type (get_signals ind ! 1) = neutral) \<and>
   (flt_greater (dict_get ind ''rsi'' 50) (Fin 70) \<longrightarrow> type (get_signals ind ! 1) = bearish) \<and>
   (dict_get ind ''rsi'' 50 = Fin 30 \<longrightarrow> type (get_signals ind ! 1) = neutral) \<and>
   (flt_less (dict_get ind ''rsi'' 50) (Fin 30) \<longrightarrow> type (get_signals ind ! 1) = bullish) \<and>
   (type (get_signals ind ! 2) = bearish \<longleftrightarrow>
      flt_greater (dict_get ind ''kdj_j'' 50) (Fin 80)) \<and>
   (type (get_signals ind ! 2) = bullish \<longleftrightarrow>
      \<not> flt_greater (dict_get ind ''kdj_j'' 50) (Fin 80) \<and>
      flt_less (dict_get ind ''kdj_j'' 50) (Fin 20)) \<and>
   (type (get_signals ind ! 2) = neutral \<longleftrightarrow>
      \<not> flt_greater (dict_get ind ''kdj_j'' 50) (Fin 80) \<and>
      \<not> flt_less (dict_get ind ''kdj_j'' 50) (Fin 20))"
  by (cases "dict_get ind ''rsi'' 50")
     (auto simp add: get_signals_def rsi_signal_def kdj_signal_def Let_def flt_greater_def)

theorem rsi_kdj_thresholds_witness:
  "type (get_signals [''rsi'' \<mapsto> Fin 70] ! 1) = neutral \<and>
   type (get_signals [''rsi'' \<mapsto> Fin 70.0001] ! 1) = bearish \<and>
   type (get_signals [''rsi'' \<mapsto> Fin 30] ! 1) = neutral \<and>
   type (get_signals [''rsi'' \<mapsto> Fin 29.9999] ! 1) = bullish \<and>
   type (get_signals [''kdj_j'' \<mapsto> Fin 80.5] ! 2) = bearish \<and>
   type (get_signals [''kdj_j'' \<mapsto> Fin 19.5] ! 2) = bullish \<and>
   type (get_signals [''kdj_j'' \<mapsto> Fin 80] ! 2) = neutral"
  using rsi_kdj_thresholds [of "[''rsi'' \<mapsto> Fin 70]"]
    rsi_kdj_thresholds [of "[''rsi'' \<mapsto> Fin 70.0001]"]
    rsi_kdj_thresholds [of "[''rsi'' \<mapsto> Fin 30]"]
    rsi_kdj_thresholds [of "[''rsi'' \<mapsto> Fin 29.9999]"]
    rsi_kdj_thresholds [of "[''kdj_j'' \<mapsto> Fin 80.5]"]
    rsi_kdj_thresholds [of "[''kdj_j'' \<mapsto> Fin 19.5]"]
    rsi_kdj_thresholds [of "[''kdj_j'' \<mapsto> Fin 80]"]
  by (simp add: dict_get_def flt_greater_def)

subsection \<open>Searching the directory\<close>

text \<open>
  C10. With an empty keyword \<open>search_stocks\<close> returns the whole directory, whatever its
  size. With a non-empty keyword it returns the first 100, in directory order, of the
  entries whose code contains the upper-cased keyword or whose upper-cased name contains
  it: at most 100 entries, all of them matching entries of the directory, and all the
  matching entries when there are no more than 100.
\<close>

theorem search_stocks_result:
  "search_stocks upper all_stocks [] = all_stocks \<and>
   (keyword \<noteq> [] \<longrightarrow>
      search_stocks upper all_stocks keyword =
        take 100 (filter (matches upper keyword) all_stocks) \<and>
      length (search_stocks upper all_stocks keyword) \<le> 100 \<and>
      set (search_stocks upper all_stocks keyword) \<subseteq>
        {s \<in> set all_stocks. matches upper keyword s} \<and>
      (length (filter (matches upper keyword) all_stocks) \<le> 100 \<longrightarrow>
         set (search_stocks upper all_stocks keyword) =
           {s \<in> set all_stocks. matches upper keyword s}))"
proof -
  have eq: "search_stocks upper all_stocks keyword =
        take 100 (filter (matches upper keyword) all_stocks)" if "keyword \<noteq> []"
    using that by (simp add: search_stocks_def matches_def [abs_def] Let_def)
  have sub: "set (take 100 (filter (matches upper keyword) all_stocks)) \<subseteq>
        {s \<in> set all_stocks. matches upper keyword s}"
    using set_take_subset [of 100 "filter (matches upper keyword) all_stocks"] by auto
  show ?thesis using eq sub by (auto simp add: search_stocks_def)
qed

theorem search_stocks_result_witness:
  "search_stocks ascii_upper sample_directory [] = sample_directory \<and>
   length (search_stocks ascii_upper sample_directory []) = 151 \<and>
   ''ping'' \<noteq> [] \<and>
   search_stocks ascii_upper sample_directory ''ping'' =
     [\<lparr>code = ''000001'', name = ''Ping An Bank'', market = ''SZ''\<rparr>] \<and>
   ''6'' \<noteq> [] \<and>
   length (search_stocks ascii_upper sample_directory ''6'') = 100"
proof -
  have k1: "''ping'' \<noteq> []" and k2: "''6'' \<noteq> []" by simp_all
  have a: "search_stocks ascii_upper sample_directory ''ping'' =
        take 100 (filter (matches ascii_upper ''ping'') sample_directory)"
    using search_stocks_result [of ascii_upper sample_directory "''ping''"] k1 by blast
  have b: "search_stocks ascii_upper sample_directory ''6'' =
        take 100 (filter (matches ascii_upper ''6'') sample_directory)"
    using search_stocks_result [of ascii_upper sample_directory "''6''"] k2 by blast
  have c: "search_stocks ascii_upper sample_directory [] = sample_directory"
    using search_stocks_result [of ascii_upper sample_directory "''6''"] by blast
  have m1: "\<not> matches ascii_upper ''ping''
              \<lparr>code = ''600519'', name = ''Kweichow Moutai'', market = ''SH''\<rparr>"
    by (simp add: matches_def ascii_upper_def sublist_code(3))
  have m2: "matches ascii_upper ''ping''
              \<lparr>code = ''000001'', name = ''Ping An Bank'', market = ''SZ''\<rparr>"
    by (simp add: matches_def ascii_upper_def sublist_code(3))
  have m3: "matches ascii_upper ''6''
              \<lparr>code = ''600519'', name = ''Kweichow Moutai'', market = ''SH''\<rparr>"
    by (simp add: matches_def ascii_upper_def sublist_code(3))
  show ?thesis
    unfolding a b c using m1 m2 m3 by (simp add: sample_directory_def)
qed

subsection \<open>Finite values\<close>

lemma fsum_Fin: "fsum (map Fin xs) = Fin (sum_list xs)"
  by (induction xs) (simp_all add: fsum_def)

lemma list_all_fin_map: "list_all is_fin (map Fin xs)"
  by (induction xs) simp_all

lemma fin_val_map: "map fin_val (map Fin xs) = xs"
  by (induction xs) simp_all

lemma fin_closes:
  assumes "\<forall>b\<in>set df. is_fin (close b)"
  shows "map close df = map Fin (closes df)"
proof -
  have "\<And>b. b \<in> set df \<Longrightarrow> close b = Fin (fin_val (close b))"
  proof -
    fix b assume "b \<in> set df"
    with assms have "is_fin (close b)" by blast
    then show "close b = Fin (fin_val (close b))" by (cases "close b") simp_all
  qed
  then show ?thesis by (simp add: closes_def)
qed

lemma length_closes: "length (closes df) = length df"
  by (simp add: closes_def)

lemma length_tail: "length (tail n xs) = min n (length xs)"
  by (simp add: tail_def)

lemma tail_map: "tail n (map f xs) = map f (tail n xs)"
  by (simp add: tail_def drop_map)

subsection \<open>Estimator A\<close>

lemma length_np_diff: "length (np_diff xs) = length xs - 1"
  by (simp add: np_diff_def)

lemma ewm_returns:
  assumes "xs \<noteq> []"
  shows "\<exists>v. ewm_mean_last L spn xs = Inr v"
  using assms by (simp add: ewm_mean_last_def)

lemma lstm_try_fails:
  assumes "11 \<le> length df"
  shows "lstm_try L df = Inl ValueError"
proof -
  let ?cl = "map close df"
  have ne: "?cl \<noteq> []" using assms by auto
  have l1: "length (np_diff (tail 10 ?cl)) = 9"
    using assms by (simp add: length_np_diff length_tail)
  have l2: "length (butlast (tail 11 ?cl)) = 10"
    using assms by (simp add: length_tail)
  have d: "np_divide (np_diff (tail 10 ?cl)) (butlast (tail 11 ?cl)) = Inl ValueError"
    unfolding np_divide_def l1 l2 by simp
  from ewm_returns [OF ne] obtain es where es: "ewm_mean_last L 5 ?cl = Inr es" by blast
  from ewm_returns [OF ne] obtain el where el: "ewm_mean_last L 20 ?cl = Inr el" by blast
  show ?thesis
    using ne by (simp add: lstm_try_def es el d iloc_last_def bindE_def Let_def)
qed

lemma fallback_value:
  assumes "df \<noteq> []"
  shows "fallback df = Inr \<lparr>trend = Sideways, price = close (last df), confidence = Fin 0.5\<rparr>"
  using assms by (simp add: fallback_def iloc_last_def bindE_def last_map)

lemma lstm_predict_value:
  assumes "11 \<le> length df"
  shows "lstm_predict L df =
         Inr \<lparr>trend = Sideways, price = close (last df), confidence = Fin 0.5\<rparr>"
proof -
  from assms have "df \<noteq> []" by auto
  then show ?thesis
    by (simp add: lstm_predict_def lstm_try_fails [OF assms] fallback_value)
qed

text \<open>
  C2. Evaluation of \<open>_lstm_predict\<close> on 60 bars that all close at 100. All ten last returns
  are \<open>0\<close>, so the fraction of returns agreeing with either direction is \<open>0\<close> and its clamp
  is \<open>0.3\<close>; the estimator returns the confidence \<open>0.5\<close> of its \<open>except\<close> branch, because
  dividing the nine differences of the last ten closes by ten closes raises.
\<close>

theorem lstm_confidence_flat:
  "lstm_predict L (flat_series 60) =
     Inr \<lparr>trend = Sideways, price = Fin 100, confidence = Fin 0.5\<rparr> \<and>
   length (spec_last_returns (flat_series 60)) = 10 \<and>
   clamp_confidence (frac_positive (spec_last_returns (flat_series 60))) = Fin 0.3 \<and>
   clamp_confidence (frac_negative (spec_last_returns (flat_series 60))) = Fin 0.3"
proof -
  have a: "lstm_predict L (flat_series 60) =
     Inr \<lparr>trend = Sideways, price = Fin 100, confidence = Fin 0.5\<rparr>"
    using lstm_predict_value [of "flat_series 60" L]
    by (simp add: flat_series_def sample_bar_def)
  have t: "tail 11 (map close (flat_series 60)) = replicate 11 (Fin 100)"
    by (simp add: tail_def flat_series_def sample_bar_def)
  have r: "spec_last_returns (flat_series 60) = replicate 10 (Fin 0)"
    unfolding spec_last_returns_def t Let_def np_diff_def
    by (simp add: numeral_eq_Suc fsub_def)
  show ?thesis unfolding r using a
    by (simp add: clamp_confidence_def frac_positive_def frac_negative_def py_min_def py_max_def
        flt_greater_def)
qed

subsection \<open>Estimator B\<close>

lemma sum_list_map_nth: "sum_list (map f xs) = (\<Sum>i<length xs. f (xs ! i))"
  by (simp add: sum_list_sum_nth atLeast0LessThan)

lemma sum_list_map2_nth:
  "length xs = length ys \<Longrightarrow> sum_list (map2 f xs ys) = (\<Sum>i<length xs. f (xs ! i) (ys ! i))"
  by (simp add: sum_list_sum_nth atLeast0LessThan)

lemma ols_line_optimal:
  fixes xs ys :: "real list"
  assumes len: "length xs = length ys"
    and pos: "0 < sum_list (map (\<lambda>x. (x - mean xs)\<^sup>2) xs)"
    and n2: "2 \<le> length xs"
    and fit: "ols_line xs ys = (slope, icpt)"
  shows "sse xs ys slope icpt \<le> sse xs ys a b"
proof -
  define n where "n = length xs"
  define mx where "mx = mean xs"
  define my where "my = mean ys"
  define u where "u i = xs ! i - mx" for i
  define v where "v i = ys ! i - my" for i
  have n0: "real n \<noteq> 0" using n2 by (auto simp add: n_def)
  define sxx where "sxx = (\<Sum>i<n. (u i)\<^sup>2)"
  define sxy where "sxy = (\<Sum>i<n. u i * v i)"
  have sxx_eq: "sum_list (map (\<lambda>x. (x - mx)\<^sup>2) xs) = sxx"
    by (simp add: sum_list_map_nth sxx_def u_def n_def)
  have sxy_eq: "sum_list (map2 (\<lambda>x y. (x - mx) * (y - my)) xs ys) = sxy"
    using len by (simp add: sum_list_map2_nth sxy_def u_def v_def n_def)
  have sxx_pos: "0 < sxx" using pos sxx_eq by (simp add: mx_def)
  have slope: "slope = sxy / sxx" and icpt: "icpt = my - slope * mx"
    using fit sxx_eq sxy_eq unfolding ols_line_def mx_def my_def
    by (auto simp add: Let_def)
  have su: "(\<Sum>i<n. u i) = 0"
  proof -
    have "(\<Sum>i<n. u i) = (\<Sum>i<n. xs ! i) - real n * mx"
      by (simp add: u_def sum_subtractf)
    also have "(\<Sum>i<n. xs ! i) = sum_list xs"
      by (simp add: sum_list_sum_nth atLeast0LessThan n_def)
    also have "sum_list xs - real n * mx = 0"
      using n0 by (simp add: mx_def mean_def n_def)
    finally show ?thesis .
  qed
  have sv: "(\<Sum>i<n. v i) = 0"
  proof -
    have "(\<Sum>i<n. v i) = (\<Sum>i<n. ys ! i) - real n * my"
      by (simp add: v_def sum_subtractf)
    also have "(\<Sum>i<n. ys ! i) = sum_list ys"
      using len by (simp add: sum_list_sum_nth atLeast0LessThan n_def)
    also have "sum_list ys - real n * my = 0"
      using n0 len by (simp add: my_def mean_def n_def)
    finally show ?thesis .
  qed
  define r where "r i = v i - slope * u i" for i
  define c where "c = (slope - a) * mx + icpt - b"
  define d where "d i = (slope - a) * u i + c" for i
  have sr: "(\<Sum>i<n. r i) = 0"
    by (simp add: r_def sum_subtractf sv su sum_distrib_left [symmetric])
  have sru: "(\<Sum>i<n. r i * u i) = 0"
  proof -
    have "(\<Sum>i<n. r i * u i) = (\<Sum>i<n. u i * v i - slope * (u i)\<^sup>2)"
      by (rule sum.cong) (simp_all add: r_def algebra_simps power2_eq_square)
    also have "\<dots> = sxy - slope * sxx"
      by (simp add: sum_subtractf sum_distrib_left [symmetric] sxy_def sxx_def)
    also have "\<dots> = 0" using sxx_pos by (simp add: slope)
    finally show ?thesis .
  qed
  have srd: "(\<Sum>i<n. r i * d i) = 0"
  proof -
    have "(\<Sum>i<n. r i * d i) = (\<Sum>i<n. (slope - a) * (r i * u i) + c * r i)"
      by (rule sum.cong) (simp_all add: d_def algebra_simps)
    also have "\<dots> = (slope - a) * (\<Sum>i<n. r i * u i) + c * (\<Sum>i<n. r i)"
      by (simp add: sum.distrib sum_distrib_left [symmetric])
    finally show ?thesis by (simp add: sr sru)
  qed
  have opt: "sse xs ys slope icpt = (\<Sum>i<n. (r i)\<^sup>2)"
    unfolding sse_def using len
    by (simp add: sum_list_map2_nth n_def r_def v_def u_def icpt algebra_simps)
  have other: "sse xs ys a b = (\<Sum>i<n. (r i + d i)\<^sup>2)"
    unfolding sse_def using len
    by (simp add: sum_list_map2_nth n_def r_def d_def c_def v_def u_def icpt algebra_simps)
  have "(\<Sum>i<n. (r i + d i)\<^sup>2) = (\<Sum>i<n. (r i)\<^sup>2 + 2 * (r i * d i) + (d i)\<^sup>2)"
    by (rule sum.cong) (simp_all add: power2_sum algebra_simps)
  also have "\<dots> = (\<Sum>i<n. (r i)\<^sup>2) + 2 * (\<Sum>i<n. r i * d i) + (\<Sum>i<n. (d i)\<^sup>2)"
    by (simp add: sum.distrib sum_distrib_left [symmetric])
  also have "\<dots> = (\<Sum>i<n. (r i)\<^sup>2) + (\<Sum>i<n. (d i)\<^sup>2)"
    by (simp add: srd)
  finally have "sse xs ys a b = sse xs ys slope icpt + (\<Sum>i<n. (d i)\<^sup>2)"
    by (simp add: opt other)
  moreover have "0 \<le> (\<Sum>i<n. (d i)\<^sup>2)" by (rule sum_nonneg) simp
  ultimately show ?thesis by simp
qed

lemma clamp_in_range: "in_clamp_range (py_min (Fin 0.9) (py_max (Fin 0.3) c))"
  by (cases c) (auto simp add: in_clamp_range_def py_min_def py_max_def flt_greater_def)

lemma sum_sq_nonneg:
  fixes f :: "'a \<Rightarrow> real"
  shows "0 \<le> sum_list (map (\<lambda>x. (f x)\<^sup>2) xs)"
  by (induction xs) auto

lemma sum_sq_zero:
  fixes f :: "'a \<Rightarrow> real"
  shows "sum_list (map (\<lambda>x. (f x)\<^sup>2) xs) = 0 \<Longrightarrow> x \<in> set xs \<Longrightarrow> f x = 0"
proof (induction xs)
  case Nil
  then show ?case by simp
next
  case (Cons a xs)
  have "0 \<le> (f a)\<^sup>2" by simp
  with Cons.prems(1) sum_sq_nonneg [of f xs]
  have "(f a)\<^sup>2 = 0" and "sum_list (map (\<lambda>x. (f x)\<^sup>2) xs) = 0"
    by (simp_all add: add_nonneg_eq_0_iff)
  with Cons.IH Cons.prems(2) show ?case by auto
qed

lemma arange_spread:
  assumes "2 \<le> n"
  shows "0 < sum_list (map (\<lambda>x. (x - m)\<^sup>2) (arange n))"
proof -
  have in0: "real 0 \<in> set (arange n)" and in1: "real 1 \<in> set (arange n)"
    using assms unfolding arange_def by (auto intro!: imageI)
  have "sum_list (map (\<lambda>x. (x - m)\<^sup>2) (arange n)) \<noteq> 0"
  proof
    assume z: "sum_list (map (\<lambda>x. (x - m)\<^sup>2) (arange n)) = 0"
    have "real 0 - m = 0" by (rule sum_sq_zero [OF z in0])
    moreover have "real 1 - m = 0" by (rule sum_sq_zero [OF z in1])
    ultimately show False by simp
  qed
  with sum_sq_nonneg [of "\<lambda>x. x - m" "arange n"] show ?thesis by simp
qed

lemma length_arange: "length (arange n) = n"
  by (simp add: arange_def)

lemma polyfit1_finite:
  assumes "2 \<le> length xs" and "ols_line xs cs = (slope, icpt)"
  shows "polyfit1 L xs (map Fin cs) = Inr (Fin slope, Fin icpt)"
proof -
  have ne: "xs \<noteq> []" and n2: "\<not> length xs < 2" using assms(1) by auto
  show ?thesis
    unfolding polyfit1_def using ne n2 assms(2)
    by (simp add: list_all_fin_map fin_val_map del: map_map)
qed

lemma fsum_map2_Fin:
  assumes "\<And>a b. F (Fin a) (Fin b) = Fin (G a b)"
  shows "fsum (map2 F (map Fin as) (map Fin bs)) = Fin (sum_list (map2 G as bs))"
proof (induction as arbitrary: bs)
  case Nil
  then show ?case by (simp add: fsum_def)
next
  case (Cons a as)
  then show ?case by (cases bs) (simp_all add: fsum_def assms)
qed

lemma fsum_map_Fin:
  assumes "\<And>a. F (Fin a) = Fin (G a)"
  shows "fsum (map F (map Fin as)) = Fin (sum_list (map G as))"
  by (induction as) (simp_all add: fsum_def assms)

lemma map2_swap_map: "map2 f cs (map g xs) = map2 (\<lambda>x c. f c (g x)) xs cs"
proof (induction xs arbitrary: cs)
  case Nil
  then show ?case by simp
next
  case (Cons x xs)
  then show ?case by (cases cs) simp_all
qed

text \<open>On finite values \<open>r_squared\<close> is \<open>1 - SSE / SST\<close>, and \<open>0\<close> when \<open>SST\<close> is not positive.\<close>

lemma r_squared_finite:
  assumes ne: "cs \<noteq> []"
  shows "r_squared x (map Fin cs) (Fin s) (Fin i) =
         Fin (if 0 < sum_list (map (\<lambda>c. (c - mean cs)\<^sup>2) cs)
              then 1 - sse x cs s i / sum_list (map (\<lambda>c. (c - mean cs)\<^sup>2) cs)
              else 0)"
proof -
  have yp: "map (\<lambda>x. fadd (fmul (Fin s) (Fin x)) (Fin i)) x = map Fin (map (\<lambda>x. s * x + i) x)"
    by simp
  have res: "fsum (map2 (\<lambda>c p. fmul (fsub c p) (fsub c p)) (map Fin cs)
                     (map Fin (map (\<lambda>x. s * x + i) x))) = Fin (sse x cs s i)"
  proof -
    have "fsum (map2 (\<lambda>c p. fmul (fsub c p) (fsub c p)) (map Fin cs)
                     (map Fin (map (\<lambda>x. s * x + i) x)))
          = Fin (sum_list (map2 (\<lambda>c p. (c - p)\<^sup>2) cs (map (\<lambda>x. s * x + i) x)))"
      by (rule fsum_map2_Fin) (simp add: fsub_def power2_eq_square)
    also have "map2 (\<lambda>c p. (c - p)\<^sup>2) cs (map (\<lambda>x. s * x + i) x)
          = map2 (\<lambda>x c. (c - (s * x + i))\<^sup>2) x cs"
      by (rule map2_swap_map)
    finally show ?thesis by (simp add: sse_def)
  qed
  have m: "fdiv (fsum (map Fin cs)) (Fin (real (length (map Fin cs)))) = Fin (mean cs)"
    using ne by (simp add: fsum_Fin mean_def)
  have tot: "fsum (map (\<lambda>c. fmul (fsub c (Fin (mean cs))) (fsub c (Fin (mean cs)))) (map Fin cs))
             = Fin (sum_list (map (\<lambda>c. (c - mean cs)\<^sup>2) cs))"
    by (rule fsum_map_Fin) (simp add: fsub_def power2_eq_square)
  show ?thesis
    unfolding r_squared_def Let_def yp res m tot
    by (simp add: flt_greater_def fsub_def)
qed

lemma prophet_try_value:
  assumes len: "30 \<le> length df"
    and fin: "\<forall>b\<in>set df. is_fin (close b)"
    and fit: "ols_line (arange 30) (tail 30 (closes df)) = (slope, icpt)"
  shows "prophet_try L df =
     Inr \<lparr>trend =
            (if slope > 0 \<and> slope * 35 + icpt > last (closes df) * 1.01 then Up
             else if slope < 0 \<and> slope * 35 + icpt < last (closes df) * 0.99 then Down
             else Sideways),
          price = Fin (slope * 35 + icpt),
          confidence = py_min (Fin 0.9) (py_max (Fin 0.3)
            (Fin \<bar>if 0 < sum_list (map (\<lambda>c. (c - mean (tail 30 (closes df)))\<^sup>2)
                                       (tail 30 (closes df)))
                  then 1 - sse (arange 30) (tail 30 (closes df)) slope icpt /
                           sum_list (map (\<lambda>c. (c - mean (tail 30 (closes df)))\<^sup>2)
                                       (tail 30 (closes df)))
                  else 0\<bar>))\<rparr>"
proof -
  let ?cs = "tail 30 (closes df)"
  have cl: "tail 30 (map close df) = map Fin ?cs"
    by (simp add: fin_closes [OF fin] tail_map)
  have l: "length ?cs = 30" using len by (simp add: length_tail length_closes)
  have ne: "?cs \<noteq> []" using l by auto
  have df: "closes df \<noteq> []" using len by (auto simp add: closes_def)
  have lst: "last ?cs = last (closes df)"
    using len df by (simp add: tail_def length_closes)
  have pf: "polyfit1 L (arange 30) (map Fin ?cs) = Inr (Fin slope, Fin icpt)"
    by (rule polyfit1_finite) (simp_all add: length_arange fit)
  show ?thesis
    unfolding prophet_try_def Let_def cl
    using ne lst
    by (simp add: l pf bindE_def iloc_last_def last_map r_squared_finite [OF ne]
        flt_greater_def)
qed

lemma prophet_in_range:
  assumes len: "30 \<le> length df"
  shows "\<exists>r. prophet_predict L df = Inr r \<and> in_clamp_range (confidence r)"
proof -
  let ?cl = "tail 30 (map close df)"
  have df: "df \<noteq> []" using len by auto
  have l: "length ?cl = 30" using len by (simp add: length_tail)
  then have ne: "?cl \<noteq> []" by auto
  show ?thesis
  proof (cases "polyfit1 L (arange 30) ?cl")
    case (Inl e)
    then have "prophet_predict L df = fallback df"
      by (simp add: prophet_predict_def prophet_try_def Let_def l bindE_def)
    then show ?thesis using df by (simp add: fallback_value in_clamp_range_def)
  next
    case (Inr p)
    obtain s i where p: "p = (s, i)" by (cases p)
    show ?thesis
      using Inr ne
      by (simp add: prophet_predict_def prophet_try_def Let_def l bindE_def p iloc_last_def
          clamp_in_range)
  qed
qed

text \<open>A window that lies on a line: the fit is that line, without residual.\<close>

lemma map2_same: "map2 f xs (map g xs) = map (\<lambda>x. f x (g x)) xs"
  by (induction xs) simp_all

lemma mean_linear:
  assumes "xs \<noteq> []"
  shows "mean (map (\<lambda>x. a * x + b) xs) = a * mean xs + b"
proof -
  have "sum_list (map (\<lambda>x. a * x + b) xs) = a * sum_list xs + real (length xs) * b"
    by (induction xs) (simp_all add: algebra_simps)
  then show ?thesis using assms by (simp add: mean_def field_simps)
qed

lemma ols_line_linear:
  assumes n2: "2 \<le> n"
  shows "ols_line (arange n) (map (\<lambda>x. a * x + b) (arange n)) = (a, b)"
proof -
  let ?xs = "arange n"
  let ?mx = "mean ?xs"
  have ne: "?xs \<noteq> []" using n2 by (auto simp add: arange_def)
  have pos: "0 < sum_list (map (\<lambda>x. (x - ?mx)\<^sup>2) ?xs)"
    by (rule arange_spread [OF n2])
  have my: "mean (map (\<lambda>x. a * x + b) ?xs) = a * ?mx + b"
    by (rule mean_linear [OF ne])
  have "map2 (\<lambda>x y. (x - ?mx) * (y - (a * ?mx + b))) ?xs (map (\<lambda>x. a * x + b) ?xs)
        = map (\<lambda>x. a * (x - ?mx)\<^sup>2) ?xs"
    unfolding map2_same by (rule map_cong) (simp_all add: algebra_simps power2_eq_square)
  then have sxy: "sum_list (map2 (\<lambda>x y. (x - ?mx) * (y - (a * ?mx + b))) ?xs
                     (map (\<lambda>x. a * x + b) ?xs))
        = a * sum_list (map (\<lambda>x. (x - ?mx)\<^sup>2) ?xs)"
    by (simp add: sum_list_const_mult)
  show ?thesis
    unfolding ols_line_def Let_def my sxy using pos by simp
qed

lemma sse_linear: "sse xs (map (\<lambda>x. a * x + b) xs) a b = 0"
  unfolding sse_def map2_same by (induction xs) simp_all

lemma rising_window:
  "tail 30 (closes (rising_series 60)) = map (\<lambda>x. 1 * x + 130) (arange 30)"
proof -
  have "closes (rising_series 60) = map (\<lambda>t. 100 + real t) [0..<60]"
    by (simp add: closes_def rising_series_def sample_bar_def comp_def)
  then have "tail 30 (closes (rising_series 60)) = map (\<lambda>t. 100 + real t) [30..<60]"
    by (simp add: tail_def drop_map)
  also have "[30..<60] = map (\<lambda>t. t + 30) [0..<30]"
    by (simp add: map_add_upt)
  finally show ?thesis by (simp add: arange_def comp_def)
qed

text \<open>
  C6. Evaluation of \<open>_prophet_predict\<close> on 60 bars closing at 100, 101, \<dots>, 159. The line
  fitted to the last 30 closes (130 to 159, at \<open>x = 0, \<dots>, 29\<close>) has slope 1 and intercept
  130. Five steps beyond the last point of the window, at \<open>x = 34\<close>, the line is at 164,
  the last close plus 5. The estimator evaluates the line at \<open>x = len + 5 = 35\<close> and
  returns the price 165, with trend \<open>up\<close> and confidence 0.9, the clamp of
  \<open>\<bar>R\<^sup>2\<bar> = 1\<close>.
\<close>

theorem prophet_extrapolation_rising:
  "polyfit1 L (arange 30) (tail 30 (map close (rising_series 60))) = Inr (Fin 1, Fin 130) \<and>
   close (last (rising_series 60)) = Fin 159 \<and>
   (1 :: real) * (29 + 5) + 130 = 164 \<and>
   prophet_predict L (rising_series 60) =
     Inr \<lparr>trend = Up, price = Fin 165, confidence = Fin 0.9\<rparr>"
proof -
  let ?cs = "tail 30 (closes (rising_series 60))"
  have fin: "\<forall>b\<in>set (rising_series 60). is_fin (close b)"
    by (auto simp add: rising_series_def sample_bar_def)
  have len: "30 \<le> length (rising_series 60)" by (simp add: rising_series_def)
  have fit: "ols_line (arange 30) ?cs = (1, 130)"
    unfolding rising_window by (rule ols_line_linear) simp
  have cl: "tail 30 (map close (rising_series 60)) = map Fin ?cs"
    by (simp add: fin_closes [OF fin] tail_map)
  have a: "polyfit1 L (arange 30) (tail 30 (map close (rising_series 60))) = Inr (Fin 1, Fin 130)"
    unfolding cl by (rule polyfit1_finite) (simp_all add: length_arange fit)
  have lastc: "last (closes (rising_series 60)) = 159"
    by (simp add: closes_def rising_series_def sample_bar_def last_map)
  have b: "close (last (rising_series 60)) = Fin 159"
    by (simp add: rising_series_def sample_bar_def last_map)
  have res: "sse (arange 30) ?cs 1 130 = 0"
    unfolding rising_window by (rule sse_linear)
  have tot: "0 < sum_list (map (\<lambda>c. (c - mean ?cs)\<^sup>2) ?cs)"
  proof -
    have "sum_list (map (\<lambda>c. (c - mean ?cs)\<^sup>2) ?cs)
          = sum_list (map (\<lambda>x. (x - (mean ?cs - 130))\<^sup>2) (arange 30))"
      unfolding rising_window by (simp add: comp_def algebra_simps)
    also have "0 < \<dots>" by (rule arange_spread) simp
    finally show ?thesis .
  qed
  have "prophet_try L (rising_series 60) =
     Inr \<lparr>trend = Up, price = Fin 165, confidence = Fin 0.9\<rparr>"
    unfolding prophet_try_value [OF len fin fit] lastc res
    using tot by (simp add: py_min_def py_max_def flt_greater_def)
  then have c: "prophet_predict L (rising_series 60) =
     Inr \<lparr>trend = Up, price = Fin 165, confidence = Fin 0.9\<rparr>"
    by (simp add: prophet_predict_def)
  show ?thesis using a b c by simp
qed
subsection \<open>Estimator C\<close>

lemma length_build_features: "length (build_features df) = length df"
  by (simp add: build_features_def Let_def)

lemma build_features_nth:
  assumes "t < length df"
  shows "build_features df ! t =
    \<lparr>idx = t, row_bar = df ! t,
     return_1 = pct_change 1 (map close df) ! t,
     return_5 = pct_change 5 (map close df) ! t,
     return_10 = pct_change 10 (map close df) ! t,
     ma5 = rolling_mean 5 (map close df) ! t,
     ma20 = rolling_mean 20 (map close df) ! t,
     ma_ratio = fdiv (rolling_mean 5 (map close df) ! t) (rolling_mean 20 (map close df) ! t),
     volatility = rolling_std 10 (map close df) ! t,
     target = target_col (map close df) ! t\<rparr>"
  using assms by (simp add: build_features_def Let_def)

lemma xgboost_short:
  assumes "length (dropna (build_features df)) < 50"
  shows "xgboost_predict L df = fallback df"
  using assms by (simp add: xgboost_predict_def xgboost_try_def Let_def split: sum.splits)

lemma xgboost_fit:
  assumes rows: "50 \<le> length (dropna (build_features df))"
    and fit: "gbc L (map feature_cols (but_last5 (dropna (build_features df))))
                  (map target (but_last5 (dropna (build_features df))))
                  (feature_cols (last (dropna (build_features df)))) = Inr prob"
    and two: "2 \<le> length prob"
  shows "xgboost_predict L df =
     Inr (if prob ! 1 > 0.6 then
            \<lparr>trend = Up, price = fmul (close (last df)) (Fin (1 + 0.03 * prob ! 1)),
             confidence = Fin (prob ! 1)\<rparr>
          else if prob ! 0 > 0.6 then
            \<lparr>trend = Down, price = fmul (close (last df)) (Fin (1 - 0.03 * prob ! 0)),
             confidence = Fin (prob ! 0)\<rparr>
          else
            \<lparr>trend = Sideways, price = close (last df),
             confidence = Fin (Max (set prob))\<rparr>)"
proof -
  let ?rows = "dropna (build_features df)"
  have ne: "?rows \<noteq> []" using rows by auto
  have "length ?rows \<le> length df"
    unfolding dropna_def using length_filter_le [of _ "build_features df"]
    by (simp add: length_build_features)
  then have df: "df \<noteq> []" using rows by auto
  have nl: "\<not> length ?rows < 50" using rows by simp
  have p1: "py_index prob (Suc 0) = Inr (prob ! Suc 0)" and p0: "py_index prob 0 = Inr (prob ! 0)"
    using two by (auto simp add: py_index_def)
  show ?thesis
    unfolding xgboost_predict_def xgboost_try_def Let_def
    using nl ne df fit
    by (simp add: bindE_def iloc_last_def p1 p0 last_map)
qed

lemma xgboost_raises:
  assumes rows: "50 \<le> length (dropna (build_features df))"
    and fit: "gbc L (map feature_cols (but_last5 (dropna (build_features df))))
                  (map target (but_last5 (dropna (build_features df))))
                  (feature_cols (last (dropna (build_features df)))) = Inl e"
  shows "xgboost_predict L df = fallback df"
proof -
  let ?rows = "dropna (build_features df)"
  have ne: "?rows \<noteq> []" using rows by auto
  have nl: "\<not> length ?rows < 50" using rows by simp
  show ?thesis
    unfolding xgboost_predict_def xgboost_try_def Let_def
    using nl ne fit
    by (simp add: bindE_def iloc_last_def)
qed

lemma xgboost_bad_prob:
  assumes rows: "50 \<le> length (dropna (build_features df))"
    and fit: "gbc L (map feature_cols (but_last5 (dropna (build_features df))))
                  (map target (but_last5 (dropna (build_features df))))
                  (feature_cols (last (dropna (build_features df)))) = Inr prob"
    and short: "length prob < 2"
  shows "xgboost_predict L df = fallback df"
proof -
  let ?rows = "dropna (build_features df)"
  have ne: "?rows \<noteq> []" using rows by auto
  have nl: "\<not> length ?rows < 50" using rows by simp
  have p1: "py_index prob (Suc 0) = Inl IndexError"
    using short by (auto simp add: py_index_def)
  show ?thesis
    unfolding xgboost_predict_def xgboost_try_def Let_def
    using nl ne fit
    by (simp add: bindE_def iloc_last_def p1)
qed

text \<open>The derived columns on finite closes.\<close>

lemma ffill_from_Fin: "ffill_from p (map Fin cs) = map Fin cs"
  by (induction cs arbitrary: p) simp_all

lemma ffill_Fin: "ffill (map Fin cs) = map Fin cs"
  by (simp add: ffill_def ffill_from_Fin)

lemma pct_change_Fin:
  assumes "t < length cs"
  shows "pct_change n (map Fin cs) ! t =
         (if t < n then NaN else fsub (fdiv (Fin (cs ! t)) (Fin (cs ! (t - n)))) (Fin 1))"
  using assms by (simp add: pct_change_def ffill_Fin Let_def)

lemma rolling_mean_last_Fin:
  "rolling_mean_last w (map Fin xs) = (if length xs < w then NaN else Fin (mean (tail w xs)))"
  by (simp add: rolling_mean_last_def tail_map list_all_fin_map fin_val_map del: map_map)

lemma rolling_std_last_Fin:
  "rolling_std_last w (map Fin xs) =
     (if length xs < w then NaN else Fin (sample_std (tail w xs)))"
  by (simp add: rolling_std_last_def tail_map list_all_fin_map fin_val_map del: map_map)

lemma rolling_mean_Fin:
  assumes "t < length cs"
  shows "rolling_mean w (map Fin cs) ! t =
         (if Suc t < w then NaN else Fin (mean (tail w (take (Suc t) cs))))"
proof -
  have "take (Suc t) (map Fin cs) = map Fin (take (Suc t) cs)" by (simp add: take_map)
  moreover have "length (take (Suc t) cs) = Suc t" using assms by simp
  ultimately show ?thesis
    using assms by (simp add: rolling_mean_def rolling_mean_last_Fin del: take_Suc_conv_app_nth)
qed

lemma rolling_std_Fin:
  assumes "t < length cs"
  shows "rolling_std w (map Fin cs) ! t =
         (if Suc t < w then NaN else Fin (sample_std (tail w (take (Suc t) cs))))"
proof -
  have "take (Suc t) (map Fin cs) = map Fin (take (Suc t) cs)" by (simp add: take_map)
  moreover have "length (take (Suc t) cs) = Suc t" using assms by simp
  ultimately show ?thesis
    using assms by (simp add: rolling_std_def rolling_std_last_Fin del: take_Suc_conv_app_nth)
qed

lemma filter_upt_ge: "filter (\<lambda>t. k \<le> t) [0..<n] = [k..<n]"
  by (induction n) (auto simp add: not_le upt_Suc_append)


lemma sum_list_pos:
  fixes xs :: "real list"
  shows "xs \<noteq> [] \<Longrightarrow> (\<And>x. x \<in> set xs \<Longrightarrow> 0 < x) \<Longrightarrow> 0 < sum_list xs"
proof (induction xs)
  case Nil
  then show ?case by simp
next
  case (Cons a xs)
  show ?case
  proof (cases "xs = []")
    case True
    with Cons.prems show ?thesis by simp
  next
    case False
    with Cons have "0 < sum_list xs" by simp
    moreover have "0 < a" using Cons.prems by simp
    ultimately show ?thesis by simp
  qed
qed

lemma mean_pos:
  fixes xs :: "real list"
  assumes "xs \<noteq> []" and "\<And>x. x \<in> set xs \<Longrightarrow> 0 < x"
  shows "0 < mean xs"
  using sum_list_pos [OF assms] assms(1) by (simp add: mean_def)

lemma set_tail_take: "set (tail w (take k xs)) \<subseteq> set xs"
  unfolding tail_def using set_drop_subset set_take_subset by fast

lemma clean_closes:
  assumes "clean_frame df"
  shows "map close df = map Fin (closes df)" and "\<forall>x\<in>set (closes df). 0 < x"
proof -
  from assms have "\<forall>b\<in>set df. is_fin (close b)" by (simp add: clean_frame_def)
  then show "map close df = map Fin (closes df)" by (rule fin_closes)
  from assms show "\<forall>x\<in>set (closes df). 0 < x"
    by (auto simp add: clean_frame_def closes_def)
qed

text \<open>
  In a clean frame the rows from bar 19 on hold finite features, and the rows before it
  hold a NaN (the 20-bar average is not defined yet).
\<close>

lemma clean_row_features:
  assumes clean: "clean_frame df" and t: "t < length df" and t19: "19 \<le> t"
  shows "list_all is_fin (feature_cols (build_features df ! t))"
    and "\<not> row_has_na (build_features df ! t)"
proof -
  let ?cs = "closes df"
  have cl: "map close df = map Fin ?cs" and pos: "\<forall>x\<in>set ?cs. 0 < x"
    using clean_closes [OF clean] by simp_all
  have tl: "t < length ?cs" using t by (simp add: length_closes)
  have nz: "\<And>i. i < length df \<Longrightarrow> ?cs ! i \<noteq> 0"
  proof -
    fix i assume "i < length df"
    then have "?cs ! i \<in> set ?cs" by (simp add: length_closes)
    with pos show "?cs ! i \<noteq> 0" by fastforce
  qed
  have m20: "mean (tail 20 (take (Suc t) ?cs)) \<noteq> 0"
  proof -
    have "0 < mean (tail 20 (take (Suc t) ?cs))"
    proof (rule mean_pos)
      show "tail 20 (take (Suc t) ?cs) \<noteq> []"
        using tl by (auto simp add: tail_def)
      show "\<And>x. x \<in> set (tail 20 (take (Suc t) ?cs)) \<Longrightarrow> 0 < x"
        using pos set_tail_take [of 20 "Suc t" ?cs] by blast
    qed
    then show ?thesis by simp
  qed
  have bar: "\<not> isna (open_p (df ! t))" "\<not> isna (close (df ! t))" "\<not> isna (high (df ! t))"
    "\<not> isna (low (df ! t))" "\<not> isna (volume (df ! t))" "\<not> isna (amount (df ! t))"
  proof -
    have mem: "df ! t \<in> set df" using t by simp
    with clean show "\<not> isna (open_p (df ! t))" "\<not> isna (high (df ! t))"
      "\<not> isna (low (df ! t))" "\<not> isna (volume (df ! t))" "\<not> isna (amount (df ! t))"
      by (simp_all add: clean_frame_def)
    from clean mem have "is_fin (close (df ! t))" by (simp add: clean_frame_def)
    then show "\<not> isna (close (df ! t))" by (cases "close (df ! t)") simp_all
  qed
  have r1: "return_1 (build_features df ! t) = Fin (?cs ! t / ?cs ! (t - 1) - 1)"
    and r5: "return_5 (build_features df ! t) = Fin (?cs ! t / ?cs ! (t - 5) - 1)"
    and r10: "return_10 (build_features df ! t) = Fin (?cs ! t / ?cs ! (t - 10) - 1)"
    using t tl t19 nz [of "t - 1"] nz [of "t - 5"] nz [of "t - 10"]
    by (simp_all add: build_features_nth cl pct_change_Fin fsub_def)
  have m5: "ma5 (build_features df ! t) = Fin (mean (tail 5 (take (Suc t) ?cs)))"
    and m20v: "ma20 (build_features df ! t) = Fin (mean (tail 20 (take (Suc t) ?cs)))"
    and vol: "volatility (build_features df ! t) = Fin (sample_std (tail 10 (take (Suc t) ?cs)))"
    using t tl t19
    by (simp_all add: build_features_nth cl rolling_mean_Fin rolling_std_Fin)
  have ratio: "ma_ratio (build_features df ! t) =
      Fin (mean (tail 5 (take (Suc t) ?cs)) / mean (tail 20 (take (Suc t) ?cs)))"
    using t tl t19 m20
    by (simp add: build_features_nth cl rolling_mean_Fin)
  show "list_all is_fin (feature_cols (build_features df ! t))"
    by (simp add: feature_cols_def r1 r5 r10 ratio vol)
  have rb: "row_bar (build_features df ! t) = df ! t"
    using t by (simp add: build_features_nth)
  show "\<not> row_has_na (build_features df ! t)"
    by (simp add: row_has_na_def rb bar r1 r5 r10 m5 m20v ratio vol)
qed

lemma early_row_has_na:
  assumes t: "t < length df" and t19: "t < 19"
  shows "row_has_na (build_features df ! t)"
proof -
  have "rolling_mean 20 (map close df) ! t = NaN"
    using t t19 by (simp add: rolling_mean_def rolling_mean_last_def)
  then have "isna (ma20 (build_features df ! t))"
    using t by (simp add: build_features_nth)
  then show ?thesis by (simp add: row_has_na_def)
qed

lemma dropna_clean:
  assumes clean: "clean_frame df"
  shows "dropna (build_features df) = drop 19 (build_features df)"
proof -
  obtain F where bf: "build_features df = map F [0..<length df]"
    unfolding build_features_def Let_def by blast
  have iff: "\<And>t. t < length df \<Longrightarrow> row_has_na (F t) \<longleftrightarrow> t < 19"
  proof -
    fix t assume t: "t < length df"
    then have Ft: "F t = build_features df ! t" by (simp add: bf)
    show "row_has_na (F t) \<longleftrightarrow> t < 19"
    proof (cases "t < 19")
      case True
      then show ?thesis using early_row_has_na [OF t] by (simp add: Ft)
    next
      case False
      then have "19 \<le> t" by simp
      from clean_row_features(2) [OF clean t this] False show ?thesis by (simp add: Ft)
    qed
  qed
  have "filter (\<lambda>r. \<not> row_has_na r) (map F [0..<length df])
        = map F (filter (\<lambda>t. \<not> row_has_na (F t)) [0..<length df])"
    by (simp add: filter_map comp_def)
  also have "filter (\<lambda>t. \<not> row_has_na (F t)) [0..<length df]
        = filter (\<lambda>t. 19 \<le> t) [0..<length df]"
    by (rule filter_cong) (auto simp add: iff not_less)
  also have "\<dots> = [19..<length df]" by (rule filter_upt_ge)
  also have "map F [19..<length df] = drop 19 (map F [0..<length df])"
    by (simp add: drop_map)
  finally show ?thesis by (simp add: dropna_def bf)
qed

lemma dropna_length:
  assumes "clean_frame df"
  shows "length (dropna (build_features df)) = length df - 19"
  by (simp add: dropna_clean [OF assms] length_build_features)

lemma dropna_nth:
  assumes "clean_frame df" and "19 + j < length df"
  shows "dropna (build_features df) ! j = build_features df ! (19 + j)"
  using assms by (simp add: dropna_clean length_build_features)



text \<open>The sample series \<open>vee_series\<close>.\<close>

lemma vee_close_pos: "0 < vee_close t"
  by (simp add: vee_close_def)

lemma length_vee: "length (vee_series n) = n"
  by (simp add: vee_series_def)

lemma vee_nth: "t < n \<Longrightarrow> vee_series n ! t = sample_bar (vee_close t)"
  by (simp add: vee_series_def)

lemma vee_clean: "clean_frame (vee_series n)"
  by (auto simp add: clean_frame_def vee_series_def sample_bar_def vee_close_pos)

lemma vee_last: "0 < n \<Longrightarrow> close (last (vee_series n)) = Fin (vee_close (n - 1))"
  by (simp add: vee_series_def sample_bar_def last_map)

lemma vee_rows: "length (dropna (build_features (vee_series n))) = n - 19"
  using dropna_length [OF vee_clean, of n] by (simp add: length_vee)

lemma vee_target:
  assumes "t < n"
  shows "target (build_features (vee_series n) ! t) =
         (if t + 5 < n \<and> vee_close t < vee_close (t + 5) then 1 else 0)"
proof -
  have t: "t < length (vee_series n)" using assms by (simp add: length_vee)
  have c5: "map close (vee_series n) ! (t + 5) = Fin (vee_close (t + 5))" if "t + 5 < n"
    using that by (simp add: length_vee vee_nth sample_bar_def)
  show ?thesis
    using assms
    by (auto simp add: build_features_nth [OF t] target_col_def length_vee vee_nth
        sample_bar_def flt_greater_def c5)
qed

text \<open>
  On \<open>vee_series 69\<close> the classifier receives 45 finite rows whose labels are of both
  classes, so the stand-in answers.
\<close>

lemma vee_fit:
  "gbc libs_sample
     (map feature_cols (but_last5 (dropna (build_features (vee_series 69)))))
     (map target (but_last5 (dropna (build_features (vee_series 69)))))
     (feature_cols (last (dropna (build_features (vee_series 69)))))
   = Inr [0.0015, 0.9985]"
proof -
  let ?bf = "build_features (vee_series 69)"
  let ?rows = "dropna ?bf"
  have rows: "?rows = drop 19 ?bf" by (rule dropna_clean [OF vee_clean])
  have lbf: "length ?bf = 69" by (simp add: length_build_features length_vee)
  have lrows: "length ?rows = 50" by (simp add: vee_rows)
  have fin_row: "list_all is_fin (feature_cols r)" if "r \<in> set ?rows" for r
  proof -
    from that obtain j where j: "j < 50" and r: "r = ?rows ! j"
      unfolding in_set_conv_nth lrows by blast
    have "r = ?bf ! (19 + j)" using j by (simp add: r rows lbf)
    moreover have "list_all is_fin (feature_cols (?bf ! (19 + j)))"
      using j by (intro clean_row_features(1) [OF vee_clean]) (simp_all add: length_vee)
    ultimately show ?thesis by simp
  qed
  have X_fin: "list_all (list_all is_fin) (map feature_cols (but_last5 ?rows))"
  proof -
    have "set (but_last5 ?rows) \<subseteq> set ?rows"
      unfolding but_last5_def by (rule set_take_subset)
    then show ?thesis using fin_row by (auto simp add: list_all_iff)
  qed
  have X_ne: "map feature_cols (but_last5 ?rows) \<noteq> []"
    using lrows by (auto simp add: but_last5_def)
  have x_fin: "list_all is_fin (feature_cols (last ?rows))"
  proof -
    have "?rows \<noteq> []" using lrows by auto
    then have "last ?rows \<in> set ?rows" by simp
    then show ?thesis by (rule fin_row)
  qed
  have ly: "length (map target (but_last5 ?rows)) = 45"
    by (simp add: but_last5_def lrows)
  have y0: "map target (but_last5 ?rows) ! 0 = 0"
    using vee_target [of 19 69]
    by (simp add: but_last5_def lrows rows lbf vee_close_def)
  have y44: "map target (but_last5 ?rows) ! 44 = 1"
    using vee_target [of 63 69]
    by (simp add: but_last5_def lrows rows lbf vee_close_def)
  have in0: "0 \<in> set (map target (but_last5 ?rows))"
    using nth_mem [of 0 "map target (but_last5 ?rows)"] ly y0 by simp
  have in1: "1 \<in> set (map target (but_last5 ?rows))"
    using nth_mem [of 44 "map target (but_last5 ?rows)"] ly y44 by simp
  show ?thesis
    using X_fin X_ne x_fin in0 in1 by (simp add: libs_sample_def gbc_on_vee_def)
qed

lemma vee_xgboost:
  "xgboost_predict libs_sample (vee_series 69) =
     Inr \<lparr>trend = Up, price = Fin 142.13379, confidence = Fin 0.9985\<rparr>"
proof -
  have rows: "50 \<le> length (dropna (build_features (vee_series 69)))"
    by (simp add: vee_rows)
  have two: "2 \<le> length [0.0015, 0.9985 :: real]" by simp
  have "xgboost_predict libs_sample (vee_series 69) =
     Inr (if [0.0015, 0.9985 :: real] ! 1 > 0.6 then
            \<lparr>trend = Up,
             price = fmul (close (last (vee_series 69))) (Fin (1 + 0.03 * [0.0015, 0.9985] ! 1)),
             confidence = Fin ([0.0015, 0.9985] ! 1)\<rparr>
          else if [0.0015, 0.9985 :: real] ! 0 > 0.6 then
            \<lparr>trend = Down,
             price = fmul (close (last (vee_series 69))) (Fin (1 - 0.03 * [0.0015, 0.9985] ! 0)),
             confidence = Fin ([0.0015, 0.9985] ! 0)\<rparr>
          else
            \<lparr>trend = Sideways, price = close (last (vee_series 69)),
             confidence = Fin (Max (set [0.0015, 0.9985]))\<rparr>)"
    using rows vee_fit two by (rule xgboost_fit)
  then show ?thesis by (simp add: vee_last vee_close_def)
qed




subsection \<open>Confidence ranges of the merged record\<close>

lemma xgboost_cases:
  assumes df: "df \<noteq> []"
  shows "xgboost_predict L df =
           Inr \<lparr>trend = Sideways, price = close (last df), confidence = Fin 0.5\<rparr> \<or>
         (\<exists>prob. gbc L (map feature_cols (but_last5 (dropna (build_features df))))
                        (map target (but_last5 (dropna (build_features df))))
                        (feature_cols (last (dropna (build_features df)))) = Inr prob \<and>
                 2 \<le> length prob \<and>
                 (\<exists>r. xgboost_predict L df = Inr r \<and>
                   confidence r =
                     Fin (if 0.6 < prob ! 1 then prob ! 1
                          else if 0.6 < prob ! 0 then prob ! 0 else Max (set prob))))"
proof (cases "length (dropna (build_features df)) < 50")
  case True
  then show ?thesis using df by (simp add: xgboost_short fallback_value)
next
  case False
  then have rows: "50 \<le> length (dropna (build_features df))" by simp
  show ?thesis
  proof (cases "gbc L (map feature_cols (but_last5 (dropna (build_features df))))
                      (map target (but_last5 (dropna (build_features df))))
                      (feature_cols (last (dropna (build_features df))))")
    case (Inl e)
    then show ?thesis using rows df by (simp add: xgboost_raises fallback_value)
  next
    case (Inr prob)
    show ?thesis
    proof (cases "length prob < 2")
      case True
      with rows Inr df show ?thesis by (simp add: xgboost_bad_prob fallback_value)
    next
      case False
      then have two: "2 \<le> length prob" by simp
      have "xgboost_predict L df =
        Inr (if prob ! 1 > 0.6 then
            \<lparr>trend = Up, price = fmul (close (last df)) (Fin (1 + 0.03 * prob ! 1)),
             confidence = Fin (prob ! 1)\<rparr>
          else if prob ! 0 > 0.6 then
            \<lparr>trend = Down, price = fmul (close (last df)) (Fin (1 - 0.03 * prob ! 0)),
             confidence = Fin (prob ! 0)\<rparr>
          else
            \<lparr>trend = Sideways, price = close (last df),
             confidence = Fin (Max (set prob))\<rparr>)"
        using rows Inr two by (rule xgboost_fit)
      then have "\<exists>r. xgboost_predict L df = Inr r \<and>
                   confidence r =
                     Fin (if 0.6 < prob ! 1 then prob ! 1
                          else if 0.6 < prob ! 0 then prob ! 0 else Max (set prob))"
        by auto
      with Inr two show ?thesis by blast
    qed
  qed
qed

lemma two_probabilities:
  fixes prob :: "real list"
  assumes "length prob = 2" "0 \<le> prob ! 0" "0 \<le> prob ! 1" "prob ! 0 + prob ! 1 = 1"
  shows "0.5 \<le> (if 0.6 < prob ! 1 then prob ! 1
                  else if 0.6 < prob ! 0 then prob ! 0 else Max (set prob))"
    and "(if 0.6 < prob ! 1 then prob ! 1
          else if 0.6 < prob ! 0 then prob ! 0 else Max (set prob)) \<le> 1"
proof -
  from assms(1) obtain p0 p1 where p: "prob = [p0, p1]"
    by (cases prob; cases "tl prob") auto
  show "0.5 \<le> (if 0.6 < prob ! 1 then prob ! 1
                  else if 0.6 < prob ! 0 then prob ! 0 else Max (set prob))"
    using assms by (auto simp add: p)
  show "(if 0.6 < prob ! 1 then prob ! 1
          else if 0.6 < prob ! 0 then prob ! 0 else Max (set prob)) \<le> 1"
    using assms by (auto simp add: p)
qed

text \<open>
  C4, as stated, fails. On \<open>vee_series 69\<close> (69 bars falling from 160 to 100, then rising
  to 138) the training labels are of both classes, the classifier is fitted, and it gives
  the class "up" a probability above 0.9 for the newest bar. \<open>xgboost_confidence\<close> is that
  probability, which no clamp brings back to 0.9, while the two other confidences are in
  the range.
\<close>

theorem xgboost_confidence_unclamped:
  "map_sum id xgboost_trend (predict_all libs_sample (vee_series 69)) = Inr Up \<and>
   map_sum id (in_clamp_range \<circ> xgboost_confidence) (predict_all libs_sample (vee_series 69))
     = Inr False \<and>
   map_sum id lstm_confidence (predict_all libs_sample (vee_series 69)) = Inr (Fin 0.5) \<and>
   map_sum id (in_clamp_range \<circ> prophet_confidence) (predict_all libs_sample (vee_series 69))
     = Inr True"
proof -
  have len: "length (vee_series 69) = 69" by (rule length_vee)
  have l11: "11 \<le> length (vee_series 69)" and l30: "30 \<le> length (vee_series 69)"
    by (simp_all add: len)
  have a: "lstm_predict libs_sample (vee_series 69) =
     Inr \<lparr>trend = Sideways, price = close (last (vee_series 69)), confidence = Fin 0.5\<rparr>"
    by (rule lstm_predict_value [OF l11])
  from prophet_in_range [OF l30, of libs_sample] obtain rb where
    b: "prophet_predict libs_sample (vee_series 69) = Inr rb"
    and brange: "in_clamp_range (confidence rb)"
    by blast
  have ne: "vee_series 69 \<noteq> []" "\<not> length (vee_series 69) < 60"
    using len by auto
  show ?thesis
    unfolding predict_all_def using ne brange
    by (simp add: a b vee_xgboost bindE_def in_clamp_range_def)
qed

text \<open>
  C4, amended. On a series of at least 60 bars \<open>predict_all\<close> returns a record whose
  \<open>lstm_confidence\<close> and \<open>prophet_confidence\<close> lie between 0.3 and 0.9. Its
  \<open>xgboost_confidence\<close> is not clamped: it is \<open>0.5\<close>, or the probability the classifier
  gave to the chosen class; when the classifier answers with two probabilities that sum
  to 1, it lies between 0.5 and 1.
\<close>

theorem confidence_ranges:
  assumes len: "60 \<le> length df"
  shows "\<exists>r. predict_all L df = Inr r \<and>
           in_clamp_range (lstm_confidence r) \<and>
           in_clamp_range (prophet_confidence r) \<and>
           (xgboost_confidence r = Fin 0.5 \<or>
            (\<exists>prob. gbc L (map feature_cols (but_last5 (dropna (build_features df))))
                           (map target (but_last5 (dropna (build_features df))))
                           (feature_cols (last (dropna (build_features df)))) = Inr prob \<and>
                    2 \<le> length prob \<and>
                    xgboost_confidence r =
                      Fin (if 0.6 < prob ! 1 then prob ! 1
                           else if 0.6 < prob ! 0 then prob ! 0 else Max (set prob)))) \<and>
           ((\<forall>X y x prob. gbc L X y x = Inr prob \<longrightarrow>
                length prob = 2 \<and> 0 \<le> prob ! 0 \<and> 0 \<le> prob ! 1 \<and> prob ! 0 + prob ! 1 = 1) \<longrightarrow>
            (\<exists>c. xgboost_confidence r = Fin c \<and> 0.5 \<le> c \<and> c \<le> 1))"
proof -
  have df: "df \<noteq> []" and n60: "\<not> length df < 60" and l11: "11 \<le> length df"
    and l30: "30 \<le> length df"
    using len by auto
  have a: "lstm_predict L df =
         Inr \<lparr>trend = Sideways, price = close (last df), confidence = Fin 0.5\<rparr>"
    by (rule lstm_predict_value [OF l11])
  from prophet_in_range [OF l30, of L] obtain rb where
    b: "prophet_predict L df = Inr rb" and brange: "in_clamp_range (confidence rb)"
    by blast
  from xgboost_cases [OF df, of L] obtain rc where
    c: "xgboost_predict L df = Inr rc" and
    cc: "confidence rc = Fin 0.5 \<or>
         (\<exists>prob. gbc L (map feature_cols (but_last5 (dropna (build_features df))))
                        (map target (but_last5 (dropna (build_features df))))
                        (feature_cols (last (dropna (build_features df)))) = Inr prob \<and>
                 2 \<le> length prob \<and>
                 confidence rc =
                     Fin (if 0.6 < prob ! 1 then prob ! 1
                          else if 0.6 < prob ! 0 then prob ! 0 else Max (set prob)))"
    by force
  define r where "r = \<lparr>lstm_trend = Sideways, lstm_price = close (last df),
      lstm_confidence = Fin 0.5, prophet_trend = trend rb, prophet_price = price rb,
      prophet_confidence = confidence rb, xgboost_trend = trend rc,
      xgboost_price = price rc, xgboost_confidence = confidence rc\<rparr>"
  have p: "predict_all L df = Inr r"
    unfolding predict_all_def using df n60 by (simp add: a b c bindE_def r_def)
  have ra: "in_clamp_range (lstm_confidence r)"
    by (simp add: r_def in_clamp_range_def)
  have rb: "in_clamp_range (prophet_confidence r)"
    using brange by (simp add: r_def)
  have rc: "xgboost_confidence r = confidence rc" by (simp add: r_def)
  have wf: "\<exists>c. xgboost_confidence r = Fin c \<and> 0.5 \<le> c \<and> c \<le> 1"
    if ok: "\<forall>X y x prob. gbc L X y x = Inr prob \<longrightarrow>
                length prob = 2 \<and> 0 \<le> prob ! 0 \<and> 0 \<le> prob ! 1 \<and> prob ! 0 + prob ! 1 = 1"
  proof -
    from cc show ?thesis
    proof
      assume "confidence rc = Fin 0.5"
      then have "xgboost_confidence r = Fin 0.5 \<and> (0.5 :: real) \<le> 0.5 \<and> (0.5 :: real) \<le> 1"
        by (simp add: rc)
      then show ?thesis by blast
    next
      assume "\<exists>prob. gbc L (map feature_cols (but_last5 (dropna (build_features df))))
                        (map target (but_last5 (dropna (build_features df))))
                        (feature_cols (last (dropna (build_features df)))) = Inr prob \<and>
                 2 \<le> length prob \<and>
                 confidence rc =
                     Fin (if 0.6 < prob ! 1 then prob ! 1
                          else if 0.6 < prob ! 0 then prob ! 0 else Max (set prob))"
      then obtain prob where
        g: "gbc L (map feature_cols (but_last5 (dropna (build_features df))))
                      (map target (but_last5 (dropna (build_features df))))
                      (feature_cols (last (dropna (build_features df)))) = Inr prob"
        and cf: "confidence rc =
                     Fin (if 0.6 < prob ! 1 then prob ! 1
                          else if 0.6 < prob ! 0 then prob ! 0 else Max (set prob))"
        by blast
      from ok g have w: "length prob = 2" "0 \<le> prob ! 0" "0 \<le> prob ! 1"
        "prob ! 0 + prob ! 1 = 1" by blast+
      show ?thesis
        using two_probabilities [OF w] cf rc by metis
    qed
  qed
  have cc': "xgboost_confidence r = Fin 0.5 \<or>
            (\<exists>prob. gbc L (map feature_cols (but_last5 (dropna (build_features df))))
                           (map target (but_last5 (dropna (build_features df))))
                           (feature_cols (last (dropna (build_features df)))) = Inr prob \<and>
                    2 \<le> length prob \<and>
                    xgboost_confidence r =
                      Fin (if 0.6 < prob ! 1 then prob ! 1
                           else if 0.6 < prob ! 0 then prob ! 0 else Max (set prob)))"
    using cc by (simp add: rc)
  have wf': "(\<forall>X y x prob. gbc L X y x = Inr prob \<longrightarrow>
                length prob = 2 \<and> 0 \<le> prob ! 0 \<and> 0 \<le> prob ! 1 \<and> prob ! 0 + prob ! 1 = 1) \<longrightarrow>
            (\<exists>c. xgboost_confidence r = Fin c \<and> 0.5 \<le> c \<and> c \<le> 1)"
    using wf by blast
  from p ra rb cc' wf' show ?thesis
    by (intro exI [of _ r] conjI)
qed

theorem confidence_ranges_witness:
  "60 \<le> length (vee_series 69) \<and>
   (\<exists>r. predict_all libs_sample (vee_series 69) = Inr r \<and>
        in_clamp_range (lstm_confidence r) \<and> in_clamp_range (prophet_confidence r) \<and>
        xgboost_trend r = Up \<and>
        (\<exists>c. xgboost_confidence r = Fin c \<and> 0.5 \<le> c \<and> c \<le> 1))"
proof -
  have h: "60 \<le> length (vee_series 69)" by (simp add: length_vee)
  have ok: "\<forall>X y x prob. gbc libs_sample X y x = Inr prob \<longrightarrow>
      length prob = 2 \<and> 0 \<le> prob ! 0 \<and> 0 \<le> prob ! 1 \<and> prob ! 0 + prob ! 1 = 1"
    by (auto simp add: libs_sample_def gbc_on_vee_def split: if_splits)
  from confidence_ranges [OF h, of libs_sample] ok obtain r where
    p: "predict_all libs_sample (vee_series 69) = Inr r"
    and ra: "in_clamp_range (lstm_confidence r)"
    and rb: "in_clamp_range (prophet_confidence r)"
    and rc: "\<exists>c. xgboost_confidence r = Fin c \<and> 0.5 \<le> c \<and> c \<le> 1"
    by blast
  have ne: "vee_series 69 \<noteq> []" "\<not> length (vee_series 69) < 60"
    using length_vee [of 69] by auto
  have "xgboost_trend r = Up"
    using p ne unfolding predict_all_def
    by (auto simp add: vee_xgboost bindE_def split: sum.splits)
  with h p ra rb rc show ?thesis by blast
qed

subsection \<open>Kline Retriever\<close>

text \<open>
  C3, as stated, fails: the series of the snapshot adapter is returned as it was decoded.
  When the provider answers with 251 rows, \<open>get_kline\<close> returns 251 bars.
\<close>

theorem snapshot_series_not_truncated:
  "get_kline up_long_snapshot ''600519'' ''daily'' = [0..<251] \<and>
   \<not> length (get_kline up_long_snapshot ''600519'' ''daily'') \<le> 250"
proof -
  have "sina_try up_long_snapshot ''600519'' ''daily'' = Inr [0..<251]"
    by (simp add: sina_try_def up_long_snapshot_def bindE_def scale_map_def str_rfind_def
        slice_def Let_def)
  then have "get_kline_sina up_long_snapshot ''600519'' ''daily'' = [0..<251]"
    by (simp add: get_kline_sina_def)
  then show ?thesis by (simp add: get_kline_def Let_def)
qed

lemma ak_attempt_Some:
  assumes "ak_attempt up scode period retry = Inr (Some df)"
  shows "\<exists>raw d. ak_hist up retry scode
                    (if period = ''weekly'' then ''weekly''
                     else if period = ''monthly'' then ''monthly'' else ''daily'')
                  = Inr (Some raw) \<and>
                 raw \<noteq> [] \<and> ak_normalize up raw = Inr d \<and> df = tail 250 d"
  using assms unfolding ak_attempt_def Let_def bindE_def
  by (auto split: sum.splits option.splits if_splits)

lemma ak_loop_result:
  "ak_loop up scode period rs = [] \<or>
   (\<exists>retry\<in>set rs. ak_attempt up scode period retry = Inr (Some (ak_loop up scode period rs)))"
  by (induction rs) (auto split: sum.splits option.splits)

lemma ak_loop_all_fail:
  "(\<forall>retry\<in>set rs. \<exists>e. ak_attempt up scode period retry = Inl e) \<Longrightarrow>
   ak_loop up scode period rs = []"
  by (induction rs) auto

text \<open>
  C3, amended. \<open>get_kline\<close> returns the series of the snapshot adapter when it is not
  empty, otherwise the series of the historical adapter, which is empty when that adapter
  has nothing. An adapter that raises internally yields the empty series: the snapshot
  adapter when its \<open>try\<close> block raises, the historical adapter when all three attempts
  raise; \<open>get_kline\<close> has no failing outcome. The series of the historical adapter has at
  most 250 bars: it is the last 250 rows, in their order, of the frame one of the three
  attempts obtained. Hence every series returned when the snapshot adapter has nothing
  has at most 250 bars. The snapshot adapter's own series is not truncated.
\<close>

theorem get_kline_fallback:
  "get_kline up scode period =
     (if get_kline_sina up scode period \<noteq> [] then get_kline_sina up scode period
      else get_kline_akshare up scode period) \<and>
   (get_kline_sina up scode period = [] \<and> get_kline_akshare up scode period = [] \<longrightarrow>
      get_kline up scode period = []) \<and>
   (\<forall>e. sina_try up scode period = Inl e \<longrightarrow> get_kline_sina up scode period = []) \<and>
   ((\<forall>retry\<in>{0, 1, 2}. \<exists>e. ak_attempt up scode period retry = Inl e) \<longrightarrow>
      get_kline_akshare up scode period = []) \<and>
   length (get_kline_akshare up scode period) \<le> 250 \<and>
   (get_kline_sina up scode period = [] \<longrightarrow> length (get_kline up scode period) \<le> 250) \<and>
   (get_kline_akshare up scode period \<noteq> [] \<longrightarrow>
      (\<exists>retry\<in>{0, 1, 2}. \<exists>raw df.
         ak_hist up retry scode
           (if period = ''weekly'' then ''weekly''
            else if period = ''monthly'' then ''monthly'' else ''daily'') = Inr (Some raw) \<and>
         ak_normalize up raw = Inr df \<and>
         get_kline_akshare up scode period = drop (length df - 250) df))"
proof -
  have a: "get_kline up scode period =
     (if get_kline_sina up scode period \<noteq> [] then get_kline_sina up scode period
      else get_kline_akshare up scode period)"
    by (simp add: get_kline_def Let_def)
  have c: "\<forall>e. sina_try up scode period = Inl e \<longrightarrow> get_kline_sina up scode period = []"
    by (simp add: get_kline_sina_def)
  have d: "(\<forall>retry\<in>{0, 1, 2}. \<exists>e. ak_attempt up scode period retry = Inl e) \<longrightarrow>
      get_kline_akshare up scode period = []"
    unfolding get_kline_akshare_def using ak_loop_all_fail [of "[0, 1, 2]" up scode period]
    by simp
  have g: "\<exists>retry\<in>{0, 1, 2}. \<exists>raw df.
         ak_hist up retry scode
           (if period = ''weekly'' then ''weekly''
            else if period = ''monthly'' then ''monthly'' else ''daily'') = Inr (Some raw) \<and>
         ak_normalize up raw = Inr df \<and>
         get_kline_akshare up scode period = drop (length df - 250) df"
    if ne: "get_kline_akshare up scode period \<noteq> []"
  proof -
    from ak_loop_result [of up scode period "[0, 1, 2]"] ne obtain retry where
      r: "retry \<in> {0, 1, 2}" and
      at: "ak_attempt up scode period retry = Inr (Some (get_kline_akshare up scode period))"
      by (auto simp add: get_kline_akshare_def)
    from ak_attempt_Some [OF at] r show ?thesis
      unfolding tail_def by blast
  qed
  have e: "length (get_kline_akshare up scode period) \<le> 250"
  proof (cases "get_kline_akshare up scode period = []")
    case True
    then show ?thesis by simp
  next
    case False
    from g [OF False] obtain df where
      "get_kline_akshare up scode period = drop (length df - 250) df" by blast
    then show ?thesis by simp
  qed
  have f: "get_kline_sina up scode period = [] \<longrightarrow> length (get_kline up scode period) \<le> 250"
    using a e by simp
  show ?thesis using a c d e f g by simp
qed

theorem get_kline_fallback_witness:
  "get_kline_sina up_history_300 ''000001'' ''daily'' = [] \<and>
   get_kline up_history_300 ''000001'' ''daily'' = [50..<300] \<and>
   length (get_kline up_history_300 ''000001'' ''daily'') = 250"
proof -
  have s: "get_kline_sina up_history_300 ''000001'' ''daily'' = []"
    by (simp add: get_kline_sina_def sina_try_def up_history_300_def bindE_def Let_def)
  have k: "get_kline_akshare up_history_300 ''000001'' ''daily'' = [50..<300]"
    by (simp add: get_kline_akshare_def ak_attempt_def up_history_300_def bindE_def tail_def)
  from get_kline_fallback [of up_history_300 "''000001''" "''daily''"] s k
  have "get_kline up_history_300 ''000001'' ''daily'' = [50..<300]" by simp
  with s show ?thesis by simp
qed

end
